theory Spec2Isabelle
  imports Complex_Main "HOL-Library.Sublist"
begin

section \<open>Text primitives of the Python runtime\<close>

text \<open>
  Strings are byte strings (\<open>char list\<close>); the model covers ASCII text. The character
  classes are those of Python's \<open>re\<close> on \<open>str\<close> patterns restricted to ASCII:
  \<open>\s\<close> is what \<open>str.isspace\<close> accepts (codes 9 to 13 and 28 to 32), \<open>\w\<close> is a
  letter, a digit or the underscore. A byte above 127 is neither.
  Floats are modelled by exact rationals.
\<close>

datatype py_error = KeyError | ValueError | IndexError | ZeroDivisionError

definition is_space :: "char \<Rightarrow> bool" where
  "is_space c = (c \<in> set [CHR 0x09, CHR 0x0A, CHR 0x0B, CHR 0x0C, CHR 0x0D,
                           CHR 0x1C, CHR 0x1D, CHR 0x1E, CHR 0x1F, CHR 0x20])"

definition lower_letters :: string where
  "lower_letters = ''abcdefghijklmnopqrstuvwxyz''"

definition upper_letters :: string where
  "upper_letters = ''ABCDEFGHIJKLMNOPQRSTUVWXYZ''"

definition digits :: string where
  "digits = ''0123456789''"

definition is_word_char :: "char \<Rightarrow> bool" where
  "is_word_char c = (c \<in> set (lower_letters @ upper_letters @ digits @ ''_''))"

definition lower_char :: "char \<Rightarrow> char" where
  "lower_char c = (case map_of (zip upper_letters lower_letters) c of
                     Some d \<Rightarrow> d | None \<Rightarrow> c)"

definition py_lower :: "string \<Rightarrow> string" where
  "py_lower s = map lower_char s"

definition py_strip :: "string \<Rightarrow> string" where
  "py_strip s = rev (dropWhile is_space (rev (dropWhile is_space s)))"

text \<open>\<open>str.split()\<close> with no argument: the maximal runs of non-space characters.\<close>

fun py_split_acc :: "string \<Rightarrow> string \<Rightarrow> string list" where
  "py_split_acc w [] = (if w = [] then [] else [w])"
| "py_split_acc w (c # cs) =
     (if is_space c then (if w = [] then [] else [w]) @ py_split_acc [] cs
      else py_split_acc (w @ [c]) cs)"

definition py_split :: "string \<Rightarrow> string list" where
  "py_split s = py_split_acc [] s"

text \<open>\<open>k in text\<close> on strings: \<open>k\<close> occurs as a contiguous substring.\<close>

fun contains :: "string \<Rightarrow> string \<Rightarrow> bool" where
  "contains k [] = (k = [])"
| "contains k (c # cs) = (prefix k (c # cs) \<or> contains k cs)"

section \<open>SentimentAnalyzer\<close>

text \<open>The module-level capability flags and the external collaborators they guard.\<close>

record env =
  HAS_TEXTBLOB :: bool
  textblob :: "string \<Rightarrow> rat \<times> rat"
  HAS_YOUTUBE_API :: bool
  HAS_SELENIUM :: bool
  HAS_SQLITE :: bool
  HAS_WEBSOCKETS :: bool

definition positive_keywords :: "string list" where
  "positive_keywords = [''great'', ''excellent'', ''amazing'', ''fantastic'', ''wonderful'',
     ''brilliant'', ''outstanding'', ''perfect'', ''love'', ''awesome'', ''incredible'',
     ''superb'']"

definition negative_keywords :: "string list" where
  "negative_keywords = [''terrible'', ''awful'', ''horrible'', ''disgusting'', ''pathetic'',
     ''waste'', ''stupid'', ''ridiculous'', ''hate'', ''worst'', ''trash'', ''garbage'']"

record sentiment_result =
  score :: rat
  label :: string
  polarity :: rat
  subjectivity :: rat
  political_score :: rat
  confidence :: rat
  emotion :: string

subsection \<open>\<open>_clean_text\<close>\<close>

text \<open>
  One alternative of the first pattern at the head of the string: the literal followed
  by one or more non-space characters, greedily. The result is what follows the match.
\<close>

definition match_lit_nonspace :: "string \<Rightarrow> string \<Rightarrow> string option" where
  "match_lit_nonspace lit s =
     (if prefix lit s then
        (case drop (length lit) s of
           [] \<Rightarrow> None
         | d # ds \<Rightarrow> if is_space d then None
                    else Some (dropWhile (\<lambda>x. \<not> is_space x) ds))
      else None)"

definition url_match :: "string \<Rightarrow> string option" where
  "url_match s =
     (case match_lit_nonspace ''http'' s of
        Some r \<Rightarrow> Some r
      | None \<Rightarrow>
          (case match_lit_nonspace ''www'' s of
             Some r \<Rightarrow> Some r
           | None \<Rightarrow> match_lit_nonspace ''https'' s))"

text \<open>\<open>re.sub(r'http\S+|www\S+|https\S+', '', text)\<close>: leftmost matches are deleted.\<close>

function sub_urls :: "string \<Rightarrow> string" where
  "sub_urls [] = []"
| "sub_urls (c # cs) =
     (case url_match (c # cs) of
        Some r \<Rightarrow> (if length r < length (c # cs) then sub_urls r else c # sub_urls cs)
      | None \<Rightarrow> c # sub_urls cs)"
  by pat_completeness auto
termination
  by (relation "measure length") auto

text \<open>\<open>@\w+|#\w+\<close> at the head of the string.\<close>

definition tag_match :: "string \<Rightarrow> string option" where
  "tag_match s =
     (case s of
        [] \<Rightarrow> None
      | c # cs \<Rightarrow>
          (if c = CHR ''@'' \<or> c = CHR ''#'' then
             (case cs of
                [] \<Rightarrow> None
              | d # ds \<Rightarrow> if is_word_char d then Some (dropWhile is_word_char ds) else None)
           else None))"

function sub_tags :: "string \<Rightarrow> string" where
  "sub_tags [] = []"
| "sub_tags (c # cs) =
     (case tag_match (c # cs) of
        Some r \<Rightarrow> (if length r < length (c # cs) then sub_tags r else c # sub_tags cs)
      | None \<Rightarrow> c # sub_tags cs)"
  by pat_completeness auto
termination
  by (relation "measure length") auto

text \<open>\<open>re.sub(r'[^\w\s]', ' ', text)\<close>.\<close>

definition sub_special :: "string \<Rightarrow> string" where
  "sub_special s = map (\<lambda>c. if is_word_char c \<or> is_space c then c else CHR '' '') s"

definition clean_text :: "string \<Rightarrow> string" where
  "clean_text text = py_strip (py_lower (sub_special (sub_tags (sub_urls text))))"

subsection \<open>Keyword counting, emotion, the two strategies\<close>

definition count_in :: "string list \<Rightarrow> string list \<Rightarrow> int" where
  "count_in kws words = int (length (filter (\<lambda>word. List.member kws word) words))"

text \<open>Python's \<open>/\<close> on numbers raises on a zero divisor.\<close>

definition py_truediv :: "rat \<Rightarrow> rat \<Rightarrow> py_error + rat" where
  "py_truediv a b = (if b = 0 then Inl ZeroDivisionError else Inr (a / b))"

definition calculate_political_sentiment :: "string \<Rightarrow> py_error + rat" where
  "calculate_political_sentiment text =
     (let words = py_split text;
          positive_count = count_in positive_keywords words;
          negative_count = count_in negative_keywords words;
          total_words = int (length words)
      in if total_words = 0 then Inr 0
         else py_truediv (of_int (positive_count - negative_count)) (of_int total_words))"

definition anger_keywords :: "string list" where
  "anger_keywords = [''angry'', ''mad'', ''furious'', ''outraged'', ''livid'', ''pissed'', ''rage'']"

definition joy_keywords :: "string list" where
  "joy_keywords = [''happy'', ''excited'', ''thrilled'', ''delighted'', ''ecstatic'', ''cheerful'',
     ''joyful'']"

definition fear_keywords :: "string list" where
  "fear_keywords = [''scared'', ''afraid'', ''worried'', ''anxious'', ''concerned'', ''nervous'']"

definition sadness_keywords :: "string list" where
  "sadness_keywords = [''sad'', ''disappointed'', ''depressed'', ''upset'', ''heartbroken'',
     ''miserable'']"

definition surprise_keywords :: "string list" where
  "surprise_keywords = [''surprised'', ''shocked'', ''amazed'', ''astonished'', ''stunned'',
     ''wow'']"

definition emotions :: "(string \<times> string list) list" where
  "emotions =
     [(''anger'', anger_keywords), (''joy'', joy_keywords), (''fear'', fear_keywords),
      (''sadness'', sadness_keywords), (''surprise'', surprise_keywords)]"

text \<open>The loop over \<open>emotions.items()\<close>, in insertion order, returning at the first hit.\<close>

fun first_emotion :: "(string \<times> string list) list \<Rightarrow> string \<Rightarrow> string" where
  "first_emotion [] text = ''neutral''"
| "first_emotion ((e, keywords) # rest) text =
     (if list_ex (\<lambda>keyword. contains keyword text) keywords then e
      else first_emotion rest text)"

definition detect_emotion :: "string \<Rightarrow> string" where
  "detect_emotion text = first_emotion emotions text"

definition analyze_with_textblob :: "env \<Rightarrow> string \<Rightarrow> py_error + sentiment_result" where
  "analyze_with_textblob E text =
     (let (pol, subj) = textblob E text
      in case calculate_political_sentiment text of
           Inl e \<Rightarrow> Inl e
         | Inr pscore \<Rightarrow>
             (let final_score = (pol + pscore) / 2;
                  lab = (if final_score > 1 / 10 then ''positive''
                         else if final_score < - (1 / 10) then ''negative''
                         else ''neutral'')
              in Inr \<lparr>score = final_score, label = lab, polarity = pol, subjectivity = subj,
                      political_score = pscore, confidence = \<bar>final_score\<bar>,
                      emotion = detect_emotion text\<rparr>))"

definition analyze_with_keywords :: "string \<Rightarrow> py_error + sentiment_result" where
  "analyze_with_keywords text =
     (case calculate_political_sentiment text of
        Inl e \<Rightarrow> Inl e
      | Inr pscore \<Rightarrow>
          (let emo = detect_emotion text;
               words = py_split text;
               positive_count = count_in positive_keywords words;
               negative_count = count_in negative_keywords words;
               (lab, sc) =
                 (if positive_count > negative_count then
                    (''positive'',
                     min (8 / 10) (3 / 10 + of_int (positive_count - negative_count) * (1 / 10)))
                  else if negative_count > positive_count then
                    (''negative'',
                     max (- (8 / 10))
                       (- (3 / 10) - of_int (negative_count - positive_count) * (1 / 10)))
                  else (''neutral'', 0))
           in Inr \<lparr>score = sc, label = lab, polarity = sc, subjectivity = 1 / 2,
                   political_score = pscore, confidence = \<bar>sc\<bar>, emotion = emo\<rparr>))"

text \<open>The hit counts of the lexical strategy, on the cleaned text that it is given.\<close>

definition positive_hits :: "string \<Rightarrow> int" where
  "positive_hits text = count_in positive_keywords (py_split (clean_text text))"

definition negative_hits :: "string \<Rightarrow> int" where
  "negative_hits text = count_in negative_keywords (py_split (clean_text text))"

definition analyze_sentiment :: "env \<Rightarrow> string \<Rightarrow> py_error + sentiment_result" where
  "analyze_sentiment E text =
     (let cleaned_text = clean_text text
      in if HAS_TEXTBLOB E then analyze_with_textblob E cleaned_text
         else analyze_with_keywords cleaned_text)"

subsection \<open>Two concrete environments\<close>

definition lexical_env :: env where
  "lexical_env = \<lparr>HAS_TEXTBLOB = False, textblob = (\<lambda>t. (0, 0)), HAS_YOUTUBE_API = False,
     HAS_SELENIUM = False, HAS_SQLITE = True, HAS_WEBSOCKETS = True\<rparr>"

definition textblob_env :: env where
  "textblob_env = \<lparr>HAS_TEXTBLOB = True, textblob = (\<lambda>t. (1 / 2, 1 / 2)),
     HAS_YOUTUBE_API = False, HAS_SELENIUM = False, HAS_SQLITE = True, HAS_WEBSOCKETS = True\<rparr>"

section \<open>Randomness and the clock\<close>

text \<open>
  The module \<open>random\<close> is an explicit source: a stream of raw draws and a position.
  \<open>random.random()\<close> is a 53-bit fraction in \<open>[0, 1)\<close>; \<open>uniform\<close>, \<open>randint\<close> and
  \<open>choice\<close> are derived from one draw each. \<open>datetime.now()\<close> is a parameter \<open>now\<close>,
  in minutes.
\<close>

datatype rng = Rng "nat \<Rightarrow> int" nat

fun next_raw :: "rng \<Rightarrow> int \<times> rng" where
  "next_raw (Rng f i) = (f i, Rng f (Suc i))"

definition randint :: "int \<Rightarrow> int \<Rightarrow> rng \<Rightarrow> int \<times> rng" where
  "randint a b g = (let (x, g') = next_raw g in (a + x mod (b - a + 1), g'))"

definition random_unit :: "rng \<Rightarrow> rat \<times> rng" where
  "random_unit g = (let (x, g') = next_raw g in (of_int (x mod 2 ^ 53) / 2 ^ 53, g'))"

definition uniform :: "rat \<Rightarrow> rat \<Rightarrow> rng \<Rightarrow> rat \<times> rng" where
  "uniform a b g = (let (u, g') = random_unit g in (a + (b - a) * u, g'))"

definition choice :: "'a list \<Rightarrow> rng \<Rightarrow> 'a \<times> rng" where
  "choice xs g = (let (x, g') = next_raw g in (xs ! nat (x mod int (length xs)), g'))"

text \<open>\<open>round(x)\<close> rounds half to even; \<open>round(x, k)\<close> does so at the \<open>k\<close>-th decimal.\<close>

definition py_round :: "rat \<Rightarrow> int" where
  "py_round x =
     (let f = \<lfloor>x\<rfloor>; d = x - of_int f
      in if d < 1 / 2 then f else if 1 / 2 < d then f + 1
         else if even f then f else f + 1)"

definition py_round_digits :: "rat \<Rightarrow> nat \<Rightarrow> rat" where
  "py_round_digits x k = of_int (py_round (x * 10 ^ k)) / 10 ^ k"

section \<open>Analytics over the stored comments\<close>

text \<open>
  A row of the query of \<open>get_sentiment_analytics\<close>:
  \<open>sentiment_score, sentiment_label, likes, timestamp, text, author\<close>.
\<close>

record row =
  row_score :: rat
  row_label :: string
  row_likes :: int
  row_timestamp :: int
  row_text :: string
  row_author :: string

record analytics =
  total_comments :: int
  avg_sentiment :: rat
  weighted_sentiment :: rat
  sentiment_distribution :: "(string \<times> int) list"
  positive_percentage :: rat
  negative_percentage :: rat
  neutral_percentage :: rat
  time_trend :: "(int \<times> rat) list"
  top_words :: "(string \<times> int) list"
  engagement_score :: rat

definition bind_err :: "'e + 'a \<Rightarrow> ('a \<Rightarrow> 'e + 'b) \<Rightarrow> 'e + 'b" where
  "bind_err m f = (case m of Inl e \<Rightarrow> Inl e | Inr v \<Rightarrow> f v)"

text \<open>\<open>collections.Counter\<close>: keys in first-seen order; a missing key counts 0.\<close>

fun counter_add :: "'k \<Rightarrow> ('k \<times> int) list \<Rightarrow> ('k \<times> int) list" where
  "counter_add k [] = [(k, 1)]"
| "counter_add k ((k', n) # rest) =
     (if k = k' then (k', n + 1) # rest else (k', n) # counter_add k rest)"

definition Counter :: "'k list \<Rightarrow> ('k \<times> int) list" where
  "Counter xs = fold counter_add xs []"

definition counter_get :: "('k \<times> int) list \<Rightarrow> 'k \<Rightarrow> int" where
  "counter_get c k = (case map_of c k of Some n \<Rightarrow> n | None \<Rightarrow> 0)"

text \<open>\<open>most_common(n)\<close>: by count, descending; equal counts keep first-seen order.\<close>

definition most_common :: "nat \<Rightarrow> ('k \<times> int) list \<Rightarrow> ('k \<times> int) list" where
  "most_common n c = take n (sort_key (\<lambda>(k, v). - v) c)"

text \<open>\<open>re.findall(r'\b\w+\b', s)\<close>: the maximal runs of word characters.\<close>

fun find_words_acc :: "string \<Rightarrow> string \<Rightarrow> string list" where
  "find_words_acc w [] = (if w = [] then [] else [w])"
| "find_words_acc w (c # cs) =
     (if is_word_char c then find_words_acc (w @ [c]) cs
      else (if w = [] then [] else [w]) @ find_words_acc [] cs)"

definition find_words :: "string \<Rightarrow> string list" where
  "find_words s = find_words_acc [] s"

definition py_join :: "string \<Rightarrow> string list \<Rightarrow> string" where
  "py_join sep xs = (case xs of [] \<Rightarrow> [] | x # rest \<Rightarrow> x @ concat (map (\<lambda>y. sep @ y) rest))"

text \<open>
  The weighted sentiment:
  \<open>sum(s * l for s, l in zip(sentiments, likes)) / sum(likes) if sum(likes) > 0 else 0\<close>.
\<close>

definition weighted_sentiment_of :: "row list \<Rightarrow> py_error + rat" where
  "weighted_sentiment_of comments_data =
     (let sentiments = map row_score comments_data;
          likes = map row_likes comments_data
      in if sum_list likes > 0 then
           py_truediv (sum_list (map (\<lambda>(s, l). s * of_int l) (zip sentiments likes)))
                      (of_int (sum_list likes))
         else Inr 0)"

text \<open>
  The time trend:
  \<open>for i in range(0, len(comments_data), max(1, len(comments_data) // 10))\<close> with
  \<open>batch = comments_data[i:i+10]\<close>. A zero step makes \<open>range\<close> raise \<open>ValueError\<close>.
\<close>

function time_trend_from :: "nat \<Rightarrow> nat \<Rightarrow> row list \<Rightarrow> py_error + (int \<times> rat) list" where
  "time_trend_from i step comments_data =
     (if step = 0 then Inl ValueError
      else if i < length comments_data then
        (let batch = take 10 (drop i comments_data)
         in bind_err (py_truediv (sum_list (map row_score batch)) (of_nat (length batch)))
              (\<lambda>avg_sentiment.
                 case batch of
                   [] \<Rightarrow> Inl IndexError
                 | b # _ \<Rightarrow>
                     bind_err (time_trend_from (i + step) step comments_data)
                       (\<lambda>rest. Inr ((row_timestamp b, avg_sentiment) # rest))))
      else Inr [])"
  by pat_completeness auto
termination
  by (relation "measure (\<lambda>(i, step, comments_data). length comments_data - i)") auto

declare time_trend_from.simps [simp del]

definition time_trend_of :: "row list \<Rightarrow> py_error + (int \<times> rat) list" where
  "time_trend_of comments_data =
     time_trend_from 0 (max 1 (length comments_data div 10)) comments_data"

definition generate_mock_analytics :: "int \<Rightarrow> rng \<Rightarrow> analytics \<times> rng" where
  "generate_mock_analytics now g0 =
     (let (total, g1) = randint 50 200 g0;
          (avg, g2) = uniform (- (1 / 2)) (7 / 10) g1;
          (weighted, g3) = uniform (- (3 / 10)) (8 / 10) g2;
          (dpos, g4) = randint 20 60 g3;
          (dneg, g5) = randint 10 40 g4;
          (dneu, g6) = randint 15 45 g5;
          (ppos, g7) = uniform 35 65 g6;
          (pneg, g8) = uniform 15 35 g7;
          (pneu, g9) = uniform 20 40 g8;
          (trend, g10) =
            fold (\<lambda>i (acc, g). let (s, g') = uniform (- (1 / 2)) (8 / 10) g
                                in (acc @ [(now - 60 * i, py_round_digits s 2)], g'))
                 (map int (rev [1..<11])) ([], g9);
          (eng, g11) = uniform 3 15 g10
      in (\<lparr>total_comments = total,
           avg_sentiment = py_round_digits avg 3,
           weighted_sentiment = py_round_digits weighted 3,
           sentiment_distribution = [(''positive'', dpos), (''negative'', dneg), (''neutral'', dneu)],
           positive_percentage = py_round_digits ppos 1,
           negative_percentage = py_round_digits pneg 1,
           neutral_percentage = py_round_digits pneu 1,
           time_trend = trend,
           top_words = [(''analysis'', 25), (''great'', 20), (''political'', 18),
             (''excellent'', 15), (''good'', 12), (''interesting'', 10), (''helpful'', 8),
             (''thanks'', 7), (''policy'', 6), (''insightful'', 5)],
           engagement_score = py_round_digits eng 1\<rparr>, g11))"

text \<open>The computation on a non-empty query result.\<close>

definition compute_analytics :: "row list \<Rightarrow> py_error + analytics" where
  "compute_analytics comments_data =
     (let sentiments = map row_score comments_data;
          labels = map row_label comments_data;
          likes = map row_likes comments_data;
          texts = map row_text comments_data;
          label_counts = Counter labels
      in bind_err (weighted_sentiment_of comments_data) (\<lambda>weighted.
         bind_err (time_trend_of comments_data) (\<lambda>time_sentiment.
         let all_text = py_lower (py_join '' '' texts);
             word_freq = most_common 20 (Counter (find_words all_text))
         in
         bind_err (py_truediv (sum_list sentiments) (of_nat (length sentiments))) (\<lambda>avg.
         bind_err (py_truediv (of_int (counter_get label_counts ''positive''))
                     (of_nat (length labels))) (\<lambda>ppos.
         bind_err (py_truediv (of_int (counter_get label_counts ''negative''))
                     (of_nat (length labels))) (\<lambda>pneg.
         bind_err (py_truediv (of_int (counter_get label_counts ''neutral''))
                     (of_nat (length labels))) (\<lambda>pneu.
         bind_err (if likes \<noteq> [] then
                     py_truediv (of_int (sum_list likes)) (of_nat (length likes))
                   else Inr 0) (\<lambda>eng.
         Inr \<lparr>total_comments = int (length comments_data),
              avg_sentiment = avg,
              weighted_sentiment = weighted,
              sentiment_distribution = label_counts,
              positive_percentage = ppos * 100,
              negative_percentage = pneg * 100,
              neutral_percentage = pneu * 100,
              time_trend = time_sentiment,
              top_words = word_freq,
              engagement_score = eng\<rparr>))))))))"

text \<open>
  The table \<open>comments\<close> as a list of stored rows, each with its video id and reply flag.
  The query keeps the top-level rows of the video, newest first; rows of equal timestamp
  stay in the order of the table, as SQLite returns them.
\<close>

record stored = row +
  stored_video_id :: string
  stored_is_reply :: bool

definition query_comments :: "stored list \<Rightarrow> string \<Rightarrow> row list" where
  "query_comments db video_id =
     map row.truncate
       (sort_key (\<lambda>c. - row_timestamp c)
          (filter (\<lambda>c. stored_video_id c = video_id \<and> \<not> stored_is_reply c) db))"

definition get_sentiment_analytics ::
  "env \<Rightarrow> int \<Rightarrow> rng \<Rightarrow> stored list \<Rightarrow> string \<Rightarrow> py_error + (analytics \<times> rng)" where
  "get_sentiment_analytics E now g db video_id =
     (if \<not> HAS_SQLITE E then Inr (generate_mock_analytics now g)
      else
        (let comments_data = query_comments db video_id
         in if comments_data = [] then Inr (generate_mock_analytics now g)
            else bind_err (compute_analytics comments_data) (\<lambda>a. Inr (a, g))))"

subsection \<open>What the time trend computes, stated directly\<close>

text \<open>
  The stride of the loop, the number of buckets it makes, and the bucket that starts at
  index \<open>j\<close>: the timestamp of row \<open>j\<close> and the mean score of the window of up to ten
  rows starting there.
\<close>

definition trend_step :: "nat \<Rightarrow> nat" where
  "trend_step n = max 1 (n div 10)"

definition bucket_count :: "nat \<Rightarrow> nat" where
  "bucket_count n = (n + trend_step n - 1) div trend_step n"

definition bucket_at :: "row list \<Rightarrow> nat \<Rightarrow> int \<times> rat" where
  "bucket_at rows j =
     (row_timestamp (rows ! j),
      sum_list (map row_score (take 10 (drop j rows)))
        / of_nat (length (take 10 (drop j rows))))"

definition percentage_sum :: "analytics \<Rightarrow> rat" where
  "percentage_sum a = positive_percentage a + negative_percentage a + neutral_percentage a"

definition result_analytics :: "py_error + (analytics \<times> rng) \<Rightarrow> analytics option" where
  "result_analytics r = (case r of Inl e \<Rightarrow> None | Inr (a, g) \<Rightarrow> Some a)"

definition trend_of_result :: "py_error + (analytics \<times> rng) \<Rightarrow> (int \<times> rat) list option" where
  "trend_of_result r = map_option time_trend (result_analytics r)"

subsection \<open>A small store\<close>

definition zero_rng :: rng where
  "zero_rng = Rng (\<lambda>i. 0) 0"

definition mk_stored :: "string \<Rightarrow> bool \<Rightarrow> rat \<Rightarrow> string \<Rightarrow> int \<Rightarrow> int \<Rightarrow> stored" where
  "mk_stored vid reply s l k t =
     \<lparr>row_score = s, row_label = l, row_likes = k, row_timestamp = t,
      row_text = ''great video'', row_author = ''viewer'',
      stored_video_id = vid, stored_is_reply = reply\<rparr>"

definition five_db :: "stored list" where
  "five_db =
     [mk_stored ''vid'' False 0 ''neutral'' 0 2,
      mk_stored ''vid'' False 1 ''positive'' 0 5,
      mk_stored ''vid'' True (- 1) ''negative'' 7 6,
      mk_stored ''other'' False (- 1) ''negative'' 9 9,
      mk_stored ''vid'' False 0 ''neutral'' 0 4,
      mk_stored ''vid'' False 0 ''neutral'' 0 1,
      mk_stored ''vid'' False 0 ''neutral'' 0 3]"

definition liked_db :: "stored list" where
  "liked_db =
     [mk_stored ''vid'' False (1 / 2) ''positive'' 3 2,
      mk_stored ''vid'' False (- 1) ''negative'' 1 5,
      mk_stored ''vid'' False 0 ''neutral'' 0 4]"

definition nineteen_db :: "stored list" where
  "nineteen_db = map (\<lambda>i. mk_stored ''vid'' False 0 ''neutral'' 0 (int i)) [0..<19]"

section \<open>Video id extraction\<close>

subsection \<open>\<open>urllib.parse\<close>\<close>

text \<open>
  \<open>urlparse\<close>, the \<open>hostname\<close> property and \<open>parse_qs\<close> of CPython 3.12, on ASCII
  text. The validation of a bracketed (IPv6) host is a parameter \<open>ok\<close>; percent-decoding
  works on bytes (the replacement of invalid UTF-8 is outside the model).
\<close>

record parse_result =
  pr_scheme :: string
  pr_netloc :: string
  pr_path :: string
  pr_params :: string
  pr_query :: string
  pr_fragment :: string

text \<open>\<open>s.partition(c)\<close> and \<open>s.rpartition(c)\<close> for a one-character separator.\<close>

definition partition_chr :: "char \<Rightarrow> string \<Rightarrow> string \<times> bool \<times> string" where
  "partition_chr c s =
     (let front = takeWhile (\<lambda>x. x \<noteq> c) s; rest = dropWhile (\<lambda>x. x \<noteq> c) s
      in case rest of [] \<Rightarrow> (s, False, []) | _ # back \<Rightarrow> (front, True, back))"

definition rpartition_chr :: "char \<Rightarrow> string \<Rightarrow> string \<times> bool \<times> string" where
  "rpartition_chr c s =
     (let (a, found, b) = partition_chr c (rev s)
      in if found then (rev b, True, rev a) else ([], False, s))"

definition scheme_chars :: string where
  "scheme_chars = lower_letters @ upper_letters @ digits @ ''+-.''"

definition uses_params :: "string list" where
  "uses_params = ['''', ''ftp'', ''hdl'', ''prospero'', ''http'', ''imap'', ''https'',
     ''shttp'', ''rtsp'', ''rtspu'', ''sip'', ''sips'', ''mms'', ''sftp'', ''tel'']"

definition is_c0_or_space :: "char \<Rightarrow> bool" where
  "is_c0_or_space c = ((of_char c :: nat) \<le> 32)"

definition is_unsafe_url_byte :: "char \<Rightarrow> bool" where
  "is_unsafe_url_byte c = (c \<in> set [CHR 0x09, CHR 0x0D, CHR 0x0A])"

text \<open>The scheme, when the text up to the first colon is one.\<close>

definition split_scheme :: "string \<Rightarrow> string \<times> string" where
  "split_scheme url =
     (let (front, found, back) = partition_chr (CHR '':'') url
      in if found \<and> front \<noteq> []
            \<and> hd front \<in> set (lower_letters @ upper_letters)
            \<and> list_all (\<lambda>c. c \<in> set scheme_chars) front
         then (py_lower front, back) else ('''', url))"

definition splitnetloc :: "string \<Rightarrow> string \<times> string" where
  "splitnetloc url =
     (let body = drop 2 url;
          netloc = takeWhile (\<lambda>c. c \<notin> set ''/?#'') body
      in (netloc, drop (length netloc) body))"

definition urlsplit :: "(string \<Rightarrow> bool) \<Rightarrow> string \<Rightarrow> py_error + parse_result" where
  "urlsplit ok url0 =
     (let url1 = filter (\<lambda>c. \<not> is_unsafe_url_byte c) (dropWhile is_c0_or_space url0);
          (scheme, url2) = split_scheme url1;
          (netloc, url3) = (if take 2 url2 = ''//'' then splitnetloc url2 else ('''', url2));
          has_open = CHR ''['' \<in> set netloc;
          has_close = CHR '']'' \<in> set netloc
      in if take 2 url2 = ''//'' \<and> ((has_open \<and> \<not> has_close) \<or> (has_close \<and> \<not> has_open))
         then Inl ValueError
         else if take 2 url2 = ''//'' \<and> has_open \<and> has_close
                 \<and> \<not> ok (fst (partition_chr (CHR '']'')
                                (snd (snd (partition_chr (CHR ''['') netloc)))))
         then Inl ValueError
         else
           (let (url4, has_frag, fragment) = partition_chr (CHR ''#'') url3;
                (url5, has_query, query) = partition_chr (CHR ''?'') url4
            in Inr \<lparr>pr_scheme = scheme, pr_netloc = netloc, pr_path = url5,
                    pr_params = '''', pr_query = query, pr_fragment = fragment\<rparr>))"

text \<open>\<open>_splitparams\<close>: the parameters follow the first semicolon of the last segment.\<close>

definition splitparams :: "string \<Rightarrow> string \<times> string" where
  "splitparams url =
     (let (dir, has_slash, last_seg) = rpartition_chr (CHR ''/'') url;
          (seg, has_semi, params) = partition_chr (CHR '';'') last_seg
      in if has_slash then
           (if has_semi then (dir @ ''/'' @ seg, params) else (url, ''''))
         else (let (a, f, b) = partition_chr (CHR '';'') url in (a, b)))"

definition urlparse :: "(string \<Rightarrow> bool) \<Rightarrow> string \<Rightarrow> py_error + parse_result" where
  "urlparse ok url =
     bind_err (urlsplit ok url) (\<lambda>r.
       if List.member uses_params (pr_scheme r) \<and> CHR '';'' \<in> set (pr_path r) then
         (let (p, params) = splitparams (pr_path r)
          in Inr (r\<lparr>pr_path := p, pr_params := params\<rparr>))
       else Inr r)"

definition hostinfo_host :: "string \<Rightarrow> string" where
  "hostinfo_host netloc =
     (let (u, has_at, hostinfo) = rpartition_chr (CHR ''@'') netloc;
          (pre, have_open_br, bracketed) = partition_chr (CHR ''['') hostinfo
      in if have_open_br then fst (partition_chr (CHR '']'') bracketed)
         else fst (partition_chr (CHR '':'') hostinfo))"

definition hostname :: "parse_result \<Rightarrow> string option" where
  "hostname r =
     (let h = hostinfo_host (pr_netloc r)
      in if h = [] then None
         else (let (host, has_percent, zone) = partition_chr (CHR ''%'') h
               in Some (py_lower host @ (if has_percent then ''%'' else '''') @ zone)))"

text \<open>Percent-decoding, and \<open>parse_qs\<close> with its default arguments.\<close>

definition hex_value :: "char \<Rightarrow> nat option" where
  "hex_value c =
     map_of (zip ''0123456789abcdefABCDEF''
               [0, 1, 2, 3, 4, 5, 6, 7, 8, 9, 10, 11, 12, 13, 14, 15, 10, 11, 12, 13, 14, 15]) c"

fun unquote :: "string \<Rightarrow> string" where
  "unquote [] = []"
| "unquote [c] = [c]"
| "unquote [c, d] = [c, d]"
| "unquote (c # h # l # rest) =
     (if c = CHR ''%'' then
        (case (hex_value h, hex_value l) of
           (Some a, Some b) \<Rightarrow> char_of (a * 16 + b) # unquote rest
         | _ \<Rightarrow> c # unquote (h # l # rest))
      else c # unquote (h # l # rest))"

fun split_chr :: "char \<Rightarrow> string \<Rightarrow> string \<Rightarrow> string list" where
  "split_chr sep w [] = [w]"
| "split_chr sep w (c # cs) =
     (if c = sep then w # split_chr sep [] cs else split_chr sep (w @ [c]) cs)"

definition plus_to_space :: "string \<Rightarrow> string" where
  "plus_to_space s = map (\<lambda>c. if c = CHR ''+'' then CHR '' '' else c) s"

definition parse_qsl :: "string \<Rightarrow> (string \<times> string) list" where
  "parse_qsl qs =
     (if qs = [] then []
      else concat (map (\<lambda>name_value.
             if name_value = [] then []
             else (let (name, has_eq, v) = partition_chr (CHR ''='') name_value
                   in if v = [] then []
                      else [(unquote (plus_to_space name), unquote (plus_to_space v))]))
           (split_chr (CHR ''&'') [] qs)))"

text \<open>\<open>parse_qs(qs)[k][0]\<close>: the first value stored under \<open>k\<close>, or \<open>KeyError\<close>.\<close>

definition parse_qs_first :: "string \<Rightarrow> string \<Rightarrow> py_error + string" where
  "parse_qs_first qs k =
     (case map_of (parse_qsl qs) k of None \<Rightarrow> Inl KeyError | Some v \<Rightarrow> Inr v)"

subsection \<open>\<open>extract_video_id\<close>\<close>

definition is_id_char :: "char \<Rightarrow> bool" where
  "is_id_char c = (c \<in> set (digits @ upper_letters @ lower_letters @ ''_-''))"

definition id_token :: "string \<Rightarrow> string option" where
  "id_token s =
     (if 11 \<le> length s \<and> list_all is_id_char (take 11 s) then Some (take 11 s) else None)"

text \<open>
  \<open>re.search(r'(?:v=|\/)([0-9A-Za-z_-]{11}).*', url)\<close>: the leftmost position at which
  \<open>v=\<close> or a slash is followed by eleven id characters; group 1 is returned.
\<close>

fun id_search :: "string \<Rightarrow> string option" where
  "id_search [] = None"
| "id_search (c # cs) =
     (case (if c = CHR ''v'' \<and> take 1 cs = ''='' then id_token (drop 1 cs)
            else if c = CHR ''/'' then id_token cs else None) of
        Some v \<Rightarrow> Some v
      | None \<Rightarrow> id_search cs)"

definition regex_fallback :: "string \<Rightarrow> py_error + string" where
  "regex_fallback url = (case id_search url of Some v \<Rightarrow> Inr v | None \<Rightarrow> Inl ValueError)"

definition extract_video_id :: "(string \<Rightarrow> bool) \<Rightarrow> string \<Rightarrow> py_error + string" where
  "extract_video_id ok url =
     bind_err (urlparse ok url) (\<lambda>parsed_url.
       if hostname parsed_url = Some ''youtube.com''
          \<or> hostname parsed_url = Some ''www.youtube.com'' then
         (if pr_path parsed_url = ''/watch'' then parse_qs_first (pr_query parsed_url) ''v''
          else regex_fallback url)
       else if hostname parsed_url = Some ''youtu.be'' then Inr (drop 1 (pr_path parsed_url))
       else regex_fallback url)"

definition any_host_ok :: "string \<Rightarrow> bool" where
  "any_host_ok h = True"

section \<open>Comment acquisition\<close>

record youtube_comment =
  comment_id :: string
  author :: string
  comment_text :: string
  likes :: int
  timestamp :: int
  sentiment_score :: rat
  sentiment_label :: string
  reply_count :: int
  is_reply :: bool
  parent_id :: "string option"

text \<open>\<open>str(n)\<close> for a natural number, as the f-strings use it.\<close>

function show_nat :: "nat \<Rightarrow> string" where
  "show_nat n =
     (if n < 10 then [digits ! n] else show_nat (n div 10) @ [digits ! (n mod 10)])"
  by pat_completeness auto
termination
  by (relation "measure id") auto

declare show_nat.simps [simp del]

definition show_int :: "int \<Rightarrow> string" where
  "show_int i = (if i < 0 then CHR ''-'' # show_nat (nat (- i)) else show_nat (nat i))"

text \<open>\<open>xs[i]\<close> for \<open>i \<ge> 0\<close>, and the slice \<open>xs[:m]\<close>, which counts from the end for \<open>m < 0\<close>.\<close>

definition py_index :: "'a list \<Rightarrow> nat \<Rightarrow> py_error + 'a" where
  "py_index xs i = (if i < length xs then Inr (xs ! i) else Inl IndexError)"

definition py_slice_to :: "'a list \<Rightarrow> int \<Rightarrow> 'a list" where
  "py_slice_to xs m = (if 0 \<le> m then take (nat m) xs else take (length xs - nat (- m)) xs)"

subsection \<open>The synthetic generator\<close>

definition political_comments :: "string list" where
  "political_comments =
    [''Excellent analysis! This really breaks down the complex issues clearly.'',
     ''I disagree with some of the conclusions drawn here. More research needed.'',
     ''Thank you for explaining this so well. Very informative content.'',
     ''This perspective is interesting but I think there are other factors to consider.'',
     ''Great work! Your political insights are always spot on.'',
     ''I'm not convinced by this argument. What about the opposing viewpoint?'',
     ''This video opened my eyes to issues I hadn't considered before.'',
     ''The data presented here seems incomplete. Can you provide sources?'',
     ''Finally, someone who explains politics without bias. Refreshing!'',
     ''This is exactly the kind of analysis we need more of in media.'',
     ''I appreciate the balanced approach to such a divisive topic.'',
     ''Some good points, but I think you're missing the bigger picture.'',
     ''Your research is thorough and your presentation is clear. Well done!'',
     ''I wish more political commentators were as thoughtful as this.'',
     ''This analysis helps me understand the complexity of the situation.'',
     ''Great job breaking down the policy implications step by step.'',
     ''I don't usually comment but this deserved recognition. Excellent work!'',
     ''This is why I subscribe to this channel. Quality content always.'',
     ''The graphics and explanations make complex topics accessible. Thank you!'',
     ''I shared this with my family. Everyone should watch this analysis.'',
     ''Looking forward to your take on the upcoming policy changes.'',
     ''This kind of informed discussion is what democracy needs.'',
     ''Your ability to remain objective while explaining is commendable.'',
     ''This video should be shown in political science classes.'',
     ''I learned more in these 10 minutes than from hours of news coverage.'',
     ''The research behind this content is evident. Keep up the great work!'',
     ''Finally someone who doesn't just echo talking points. Original thinking!'',
     ''This analysis will help me make more informed decisions. Thank you.'',
     ''Your channel has become my go-to source for political analysis.'',
     ''The way you connect different policy areas is brilliant.'']"

datatype field =
  Profession | Sentiment | Field | Agreement | Aspect | Topic | Evaluation | Quality
  | Subject | Group | Importance

datatype piece = Lit string | Hole field

definition comment_templates :: "piece list list" where
  "comment_templates =
    [[Lit ''As a '', Hole Profession, Lit '', I find this analysis '', Hole Sentiment, Lit ''.''],
     [Lit ''From my experience in '', Hole Field, Lit '', this '', Hole Agreement,
      Lit '' with what I've observed.''],
     [Lit ''The '', Hole Aspect, Lit '' you mentioned about '', Hole Topic, Lit '' is '',
      Hole Evaluation, Lit ''.''],
     [Lit ''I've been following '', Hole Subject, Lit '' for years and this '', Hole Quality,
      Lit '' explanation.''],
     [Lit ''What about the impact on '', Hole Group, Lit ''? That seems '', Hole Importance,
      Lit ''.'']]"

definition professions :: "string list" where
  "professions = [''teacher'', ''student'', ''researcher'', ''journalist'', ''analyst'',
     ''citizen'', ''voter'', ''activist'']"

definition fields :: "string list" where
  "fields = [''policy'', ''government'', ''academia'', ''journalism'', ''research'',
     ''public service'']"

definition sentiments :: "string list" where
  "sentiments = [''very insightful'', ''somewhat problematic'', ''quite helpful'',
     ''rather concerning'', ''extremely valuable'']"

definition agreements :: "string list" where
  "agreements = [''aligns'', ''conflicts'', ''partially matches'', ''strongly supports'',
     ''challenges'']"

definition aspects :: "string list" where
  "aspects = [''point'', ''argument'', ''data'', ''conclusion'', ''perspective'', ''analysis'']"

definition topics :: "string list" where
  "topics = [''policy'', ''governance'', ''democracy'', ''legislation'', ''reform'',
     ''leadership'']"

definition evaluations :: "string list" where
  "evaluations = [''spot on'', ''questionable'', ''well researched'', ''needs more context'',
     ''brilliant'']"

definition qualities :: "string list" where
  "qualities = [''provides excellent'', ''offers decent'', ''gives poor'',
     ''delivers outstanding'', ''presents adequate'']"

definition groups :: "string list" where
  "groups = [''young voters'', ''working families'', ''small businesses'',
     ''rural communities'', ''urban areas'']"

definition importances :: "string list" where
  "importances = [''very important'', ''often overlooked'', ''critical to address'',
     ''worth considering'']"

text \<open>\<open>template.format(**kwargs)\<close>.\<close>

definition format_template :: "piece list \<Rightarrow> (field \<Rightarrow> string) \<Rightarrow> string" where
  "format_template template kwargs =
     concat (map (\<lambda>p. case p of Lit s \<Rightarrow> s | Hole f \<Rightarrow> kwargs f) template)"

text \<open>The eleven keyword arguments, each a \<open>random.choice\<close>, drawn in the order written.\<close>

definition draw_kwargs :: "rng \<Rightarrow> (field \<Rightarrow> string) \<times> rng" where
  "draw_kwargs g0 =
     (let (profession, g1) = choice professions g0;
          (sentiment, g2) = choice sentiments g1;
          (fld, g3) = choice fields g2;
          (agreement, g4) = choice agreements g3;
          (aspect, g5) = choice aspects g4;
          (topic, g6) = choice topics g5;
          (evaluation, g7) = choice evaluations g6;
          (quality, g8) = choice qualities g7;
          (subject, g9) = choice topics g8;
          (grp, g10) = choice groups g9;
          (importance, g11) = choice importances g10
      in (\<lambda>f. case f of
               Profession \<Rightarrow> profession | Sentiment \<Rightarrow> sentiment | Field \<Rightarrow> fld
             | Agreement \<Rightarrow> agreement | Aspect \<Rightarrow> aspect | Topic \<Rightarrow> topic
             | Evaluation \<Rightarrow> evaluation | Quality \<Rightarrow> quality | Subject \<Rightarrow> subject
             | Group \<Rightarrow> grp | Importance \<Rightarrow> importance,
          g11))"

text \<open>The first loop: \<open>for i in range(base_comments)\<close>, from index \<open>i\<close> on, \<open>k\<close> rounds.\<close>

fun mock_base_loop ::
  "env \<Rightarrow> int \<Rightarrow> string \<Rightarrow> nat \<Rightarrow> nat \<Rightarrow> rng \<Rightarrow> py_error + (youtube_comment list \<times> rng)" where
  "mock_base_loop E now video_id 0 i g = Inr ([], g)"
| "mock_base_loop E now video_id (Suc k) i g =
     bind_err (py_index political_comments i) (\<lambda>txt.
     bind_err (analyze_sentiment E txt) (\<lambda>sentiment.
       let (lk, g1) = randint 0 100 g;
           (minutes, g2) = randint 1 2880 g1;
           (rc, g3) = randint 0 8 g2;
           comment = \<lparr>comment_id = ''mock_'' @ video_id @ ''_'' @ show_nat i,
                      author = ''Viewer'' @ show_nat (i + 1),
                      comment_text = txt,
                      likes = lk,
                      timestamp = now - minutes,
                      sentiment_score = score sentiment,
                      sentiment_label = label sentiment,
                      reply_count = rc,
                      is_reply = False,
                      parent_id = None\<rparr>
       in bind_err (mock_base_loop E now video_id k (Suc i) g3)
            (\<lambda>(rest, g'). Inr (comment # rest, g'))))"

text \<open>The second loop: \<open>for i in range(remaining)\<close>.\<close>

fun mock_template_loop ::
  "env \<Rightarrow> int \<Rightarrow> string \<Rightarrow> nat \<Rightarrow> nat \<Rightarrow> nat \<Rightarrow> rng
     \<Rightarrow> py_error + (youtube_comment list \<times> rng)" where
  "mock_template_loop E now video_id base_comments 0 i g = Inr ([], g)"
| "mock_template_loop E now video_id base_comments (Suc k) i g =
     (let (template, g1) = choice comment_templates g;
          (kwargs, g2) = draw_kwargs g1;
          txt = format_template template kwargs
      in bind_err (analyze_sentiment E txt) (\<lambda>sentiment.
           let (u, g3) = randint 100 9999 g2;
               (lk, g4) = randint 0 50 g3;
               (minutes, g5) = randint 1 1440 g4;
               (rc, g6) = randint 0 5 g5;
               comment = \<lparr>comment_id = ''mock_'' @ video_id @ ''_'' @ show_nat (base_comments + i),
                          author = ''User'' @ show_int u,
                          comment_text = txt,
                          likes = lk,
                          timestamp = now - minutes,
                          sentiment_score = score sentiment,
                          sentiment_label = label sentiment,
                          reply_count = rc,
                          is_reply = False,
                          parent_id = None\<rparr>
           in bind_err (mock_template_loop E now video_id base_comments k (Suc i) g6)
                (\<lambda>(rest, g'). Inr (comment # rest, g'))))"

definition generate_mock_comments ::
  "env \<Rightarrow> int \<Rightarrow> rng \<Rightarrow> string \<Rightarrow> int \<Rightarrow> py_error + (youtube_comment list \<times> rng)" where
  "generate_mock_comments E now g video_id max_comments =
     (let base_comments = min (int (length political_comments)) max_comments
      in bind_err (mock_base_loop E now video_id (nat base_comments) 0 g) (\<lambda>(comments, g1).
           let remaining = max_comments - int (length comments)
           in bind_err (mock_template_loop E now video_id (nat base_comments) (nat remaining) 0 g1)
                (\<lambda>(more, g2). Inr (py_slice_to (comments @ more) max_comments, g2))))"

subsection \<open>The API tier and the fallback chain\<close>

text \<open>
  The YouTube client is a collaborator: building it and the first request may raise;
  otherwise what it answers for a video is a sequence of pages, each the outcome of one
  \<open>request.execute()\<close> already decoded (an exception, or the threads of the page); the
  sequence ends where no \<open>nextPageToken\<close> follows.
\<close>

record api_comment =
  api_id :: string
  api_author :: string
  api_text :: string
  api_likes :: int
  api_published :: int

record api_thread =
  top_level :: api_comment
  total_reply_count :: int
  replies :: "api_comment list option"

definition api_reply :: "env \<Rightarrow> string \<Rightarrow> api_comment \<Rightarrow> py_error + youtube_comment" where
  "api_reply E parent reply =
     bind_err (analyze_sentiment E (api_text reply)) (\<lambda>reply_sentiment.
       Inr \<lparr>comment_id = api_id reply, author = api_author reply,
            comment_text = api_text reply, likes = api_likes reply,
            timestamp = api_published reply,
            sentiment_score = score reply_sentiment, sentiment_label = label reply_sentiment,
            reply_count = 0, is_reply = True, parent_id = Some parent\<rparr>)"

fun api_replies :: "env \<Rightarrow> string \<Rightarrow> api_comment list \<Rightarrow> py_error + youtube_comment list" where
  "api_replies E parent [] = Inr []"
| "api_replies E parent (r # rs) =
     bind_err (api_reply E parent r) (\<lambda>c.
     bind_err (api_replies E parent rs) (\<lambda>cs. Inr (c # cs)))"

definition api_item :: "env \<Rightarrow> api_thread \<Rightarrow> py_error + youtube_comment list" where
  "api_item E item =
     bind_err (analyze_sentiment E (api_text (top_level item))) (\<lambda>sentiment.
       let comment = \<lparr>comment_id = api_id (top_level item),
                      author = api_author (top_level item),
                      comment_text = api_text (top_level item),
                      likes = api_likes (top_level item),
                      timestamp = api_published (top_level item),
                      sentiment_score = score sentiment, sentiment_label = label sentiment,
                      reply_count = total_reply_count item,
                      is_reply = False, parent_id = None\<rparr>
       in case replies item of
            None \<Rightarrow> Inr [comment]
          | Some rs \<Rightarrow> bind_err (api_replies E (comment_id comment) rs)
                         (\<lambda>cs. Inr (comment # cs)))"

fun api_items :: "env \<Rightarrow> api_thread list \<Rightarrow> py_error + youtube_comment list" where
  "api_items E [] = Inr []"
| "api_items E (item # items) =
     bind_err (api_item E item) (\<lambda>cs.
     bind_err (api_items E items) (\<lambda>rest. Inr (cs @ rest)))"

text \<open>\<open>while request and len(comments) < max_comments\<close>.\<close>

fun api_loop ::
  "env \<Rightarrow> int \<Rightarrow> (py_error + api_thread list) list \<Rightarrow> youtube_comment list
     \<Rightarrow> py_error + youtube_comment list" where
  "api_loop E max_comments [] comments = Inr comments"
| "api_loop E max_comments (page # pages) comments =
     (if int (length comments) < max_comments then
        bind_err page (\<lambda>items.
        bind_err (api_items E items) (\<lambda>cs.
          api_loop E max_comments pages (comments @ cs)))
      else Inr comments)"

type_synonym api_answer = "py_error + (py_error + api_thread list) list"

definition scrape_comments_api ::
  "env \<Rightarrow> api_answer \<Rightarrow> int \<Rightarrow> py_error + youtube_comment list" where
  "scrape_comments_api E youtube max_comments =
     bind_err youtube (\<lambda>pages.
     bind_err (api_loop E max_comments pages [])
       (\<lambda>comments. Inr (py_slice_to comments max_comments)))"

definition scrape_comments_selenium ::
  "env \<Rightarrow> int \<Rightarrow> rng \<Rightarrow> string \<Rightarrow> int \<Rightarrow> py_error + (youtube_comment list \<times> rng)" where
  "scrape_comments_selenium E now g video_id max_comments =
     generate_mock_comments E now g video_id max_comments"

text \<open>A string is true when it is present and not empty.\<close>

definition truthy :: "string option \<Rightarrow> bool" where
  "truthy k = (case k of None \<Rightarrow> False | Some s \<Rightarrow> s \<noteq> [])"

text \<open>
  \<open>scrape_comments\<close>: each tier runs inside \<open>try\<close>, and an exception moves on to the
  next tier; the last tier, the synthetic generator, is not guarded.
\<close>

definition scrape_comments ::
  "env \<Rightarrow> string option \<Rightarrow> (string \<Rightarrow> api_answer) \<Rightarrow> int \<Rightarrow> rng
     \<Rightarrow> string \<Rightarrow> int \<Rightarrow> py_error + (youtube_comment list \<times> rng)" where
  "scrape_comments E api_key api now g video_id max_comments =
     (case (if truthy api_key \<and> HAS_YOUTUBE_API E
            then (case scrape_comments_api E (api video_id) max_comments of
                    Inr comments \<Rightarrow> Some (comments, g) | Inl e \<Rightarrow> None)
            else None) of
        Some r \<Rightarrow> Inr r
      | None \<Rightarrow>
          (case (if HAS_SELENIUM E
                 then (case scrape_comments_selenium E now g video_id max_comments of
                         Inr r \<Rightarrow> Some r | Inl e \<Rightarrow> None)
                 else None) of
             Some r \<Rightarrow> Inr r
           | None \<Rightarrow> generate_mock_comments E now g video_id max_comments))"

definition no_api :: "string \<Rightarrow> api_answer" where
  "no_api video_id = Inl ValueError"

definition one_page_api :: "string \<Rightarrow> api_answer" where
  "one_page_api video_id =
     Inr [Inr [\<lparr>top_level = \<lparr>api_id = ''c1'', api_author = ''ann'', api_text = ''great video'',
                              api_likes = 4, api_published = 10\<rparr>,
                total_reply_count = 2,
                replies = Some [\<lparr>api_id = ''c1.1'', api_author = ''bob'', api_text = ''awful'',
                                  api_likes = 0, api_published = 11\<rparr>,
                                \<lparr>api_id = ''c1.2'', api_author = ''cy'', api_text = ''fine'',
                                  api_likes = 1, api_published = 12\<rparr>]\<rparr>]]"

definition seq_rng :: rng where
  "seq_rng = Rng (\<lambda>i. int i * 7 + 3) 0"

section \<open>Broadcast to the connected clients\<close>

text \<open>
  A connected client is its connection state and what it has received. \<open>send\<close> on an
  open connection delivers the message; on a closed one it raises. The set of clients
  is a list, in the order in which the set is iterated.
\<close>

datatype ws_error = ConnectionClosed

record client =
  client_name :: string
  client_open :: bool
  client_inbox :: "string list"

definition send :: "string \<Rightarrow> client \<Rightarrow> (ws_error + unit) \<times> client" where
  "send message c =
     (if client_open c then (Inr (), c\<lparr>client_inbox := client_inbox c @ [message]\<rparr>)
      else (Inl ConnectionClosed, c))"

text \<open>
  \<open>asyncio.gather(*aws, return_exceptions=...)\<close>: every awaitable runs. With
  \<open>return_exceptions=True\<close> an exception is one of the results; otherwise the first
  exception is raised to the caller of \<open>gather\<close>.
\<close>

fun first_error :: "('e + 'a) list \<Rightarrow> 'e option" where
  "first_error [] = None"
| "first_error (Inl e # rs) = Some e"
| "first_error (Inr v # rs) = first_error rs"

definition gather :: "bool \<Rightarrow> ('e + 'a) list \<Rightarrow> 'e + ('e + 'a) list" where
  "gather return_exceptions results =
     (if return_exceptions then Inr results
      else (case first_error results of Some e \<Rightarrow> Inl e | None \<Rightarrow> Inr results))"

text \<open>
  \<open>broadcast_update\<close>: the serialiser \<open>json.dumps(data, default=str)\<close> is the parameter
  \<open>dumps\<close>. The result is what the call raises, if anything, and the clients afterwards.
\<close>

definition broadcast_update ::
  "env \<Rightarrow> ('d \<Rightarrow> string) \<Rightarrow> client list \<Rightarrow> 'd \<Rightarrow> (ws_error + unit) \<times> client list" where
  "broadcast_update E dumps clients data =
     (if clients \<noteq> [] \<and> HAS_WEBSOCKETS E then
        (let message = dumps data;
             sent = map (send message) clients
         in (case gather True (map fst sent) of
               Inl e \<Rightarrow> Inl e
             | Inr results \<Rightarrow> Inr (),
             map snd sent))
      else (Inr (), clients))"

definition three_clients :: "client list" where
  "three_clients =
     [\<lparr>client_name = ''a'', client_open = True, client_inbox = []\<rparr>,
      \<lparr>client_name = ''b'', client_open = False, client_inbox = []\<rparr>,
      \<lparr>client_name = ''c'', client_open = True, client_inbox = [''earlier'']\<rparr>]"

definition show_data :: "string \<Rightarrow> string" where
  "show_data d = ''{'' @ d @ ''}''"

section \<open>Properties of the sentiment analyzer\<close>

text \<open>
  A match of either pattern of \<open>_clean_text\<close> consumes at least one character, so the
  substitution always continues behind the match.
\<close>

lemma url_match_shorter: "url_match s = Some r \<Longrightarrow> length r < length s"
proof -
  have m: "\<And>lit. match_lit_nonspace lit s = Some r \<Longrightarrow> length r < length s"
  proof -
    fix lit assume a: "match_lit_nonspace lit s = Some r"
    then obtain d ds where d: "drop (length lit) s = d # ds"
      and r: "r = dropWhile (\<lambda>x. \<not> is_space x) ds"
      by (auto simp: match_lit_nonspace_def split: if_splits list.splits)
    have "length r \<le> length ds" unfolding r by (rule length_dropWhile_le)
    moreover have "length ds < length s"
    proof -
      have "length (drop (length lit) s) = Suc (length ds)" using d by simp
      then show ?thesis by simp
    qed
    ultimately show "length r < length s" by simp
  qed
  assume "url_match s = Some r"
  then show ?thesis
    using m by (auto simp: url_match_def split: option.splits)
qed

lemma sub_urls_match: "url_match (c # cs) = Some r \<Longrightarrow> sub_urls (c # cs) = sub_urls r"
  using url_match_shorter[of "c # cs" r] by simp

lemma tag_match_shorter: "tag_match s = Some r \<Longrightarrow> length r < length s"
proof -
  assume a: "tag_match s = Some r"
  then obtain c d ds where s: "s = c # d # ds" and r: "r = dropWhile is_word_char ds"
    by (auto simp: tag_match_def split: list.splits if_splits)
  have "length r \<le> length ds" unfolding r by (rule length_dropWhile_le)
  then show ?thesis using s by simp
qed

lemma sub_tags_match: "tag_match (c # cs) = Some r \<Longrightarrow> sub_tags (c # cs) = sub_tags r"
  using tag_match_shorter[of "c # cs" r] by simp

lemma count_in_bounds: "0 \<le> count_in kws ws \<and> count_in kws ws \<le> int (length ws)"
  by (simp add: count_in_def)

lemma political_sentiment_range:
  "\<exists>v. calculate_political_sentiment text = Inr v \<and> - 1 \<le> v \<and> v \<le> 1"
proof -
  define ws where "ws = py_split text"
  define p where "p = count_in positive_keywords ws"
  define n where "n = count_in negative_keywords ws"
  have b: "0 \<le> p" "p \<le> int (length ws)" "0 \<le> n" "n \<le> int (length ws)"
    using count_in_bounds[of positive_keywords ws] count_in_bounds[of negative_keywords ws]
    by (simp_all add: p_def n_def)
  show ?thesis
  proof (cases "length ws = 0")
    case True
    then show ?thesis
      by (simp add: calculate_political_sentiment_def ws_def[symmetric])
  next
    case False
    then have pos: "(0::rat) < of_nat (length ws)" by simp
    have le1: "rat_of_int (p - n) \<le> of_nat (length ws)"
    proof -
      have "p - n \<le> int (length ws)" using b by linarith
      then have "rat_of_int (p - n) \<le> rat_of_int (int (length ws))"
        by (simp only: of_int_le_iff)
      then show ?thesis by simp
    qed
    have le2: "- rat_of_nat (length ws) \<le> rat_of_int (p - n)"
    proof -
      have "- int (length ws) \<le> p - n" using b by linarith
      then have "rat_of_int (- int (length ws)) \<le> rat_of_int (p - n)"
        by (simp only: of_int_le_iff)
      then show ?thesis by simp
    qed
    have "rat_of_int (p - n) / of_nat (length ws) \<le> 1"
      using pos le1 by (simp add: divide_le_eq)
    moreover have "- 1 \<le> rat_of_int (p - n) / of_nat (length ws)"
      using pos le2 by (simp add: le_divide_eq)
    ultimately show ?thesis
      using False
      by (simp add: calculate_political_sentiment_def ws_def[symmetric] Let_def
          p_def[symmetric] n_def[symmetric] py_truediv_def)
  qed
qed

lemma contains_sublist: "contains k t = sublist k t"
  by (induction t) (auto simp: sublist_Cons_right)

lemma list_ex_contains: "list_ex (\<lambda>k. contains k t) kws = (\<exists>k\<in>set kws. sublist k t)"
  by (simp add: list_ex_iff contains_sublist)

lemma max_neg_min: "max (- a) (- b - x) = - min (a::rat) (b + x)"
  unfolding min_def max_def by auto

lemma analyze_with_keywords_shape:
  fixes t :: string
  defines "p \<equiv> count_in positive_keywords (py_split t)"
    and "n \<equiv> count_in negative_keywords (py_split t)"
  shows "\<exists>r. analyze_with_keywords t = Inr r \<and> subjectivity r = 1 / 2
           \<and> confidence r = \<bar>score r\<bar>
           \<and> (p = n \<longrightarrow> label r = ''neutral'' \<and> score r = 0)
           \<and> (n < p \<longrightarrow> label r = ''positive''
                \<and> score r = min (8 / 10) (3 / 10 + of_int (p - n) * (1 / 10)))
           \<and> (p < n \<longrightarrow> label r = ''negative''
                \<and> score r = - min (8 / 10) (3 / 10 + of_int (n - p) * (1 / 10)))"
proof -
  obtain v where v: "calculate_political_sentiment t = Inr v"
    using political_sentiment_range[of t] by blast
  have neg: "max (- (8 / 10)) (- (3 / 10) - rat_of_int (n - p) * (1 / 10))
             = - min (8 / 10) (3 / 10 + rat_of_int (n - p) * (1 / 10))"
    by (rule max_neg_min)
  show ?thesis
    unfolding analyze_with_keywords_def v
    using neg by (simp add: Let_def p_def n_def)
qed

text \<open>
  Claim C6. Under the lexical-only strategy (no TextBlob), for every input text: equal
  positive and negative hit counts (both zero included) give the label neutral and the
  score 0; otherwise the label follows the sign of the difference and the score is
  plus or minus \<open>0.3 + 0.1\<close> per unit of excess, clamped to \<open>[-0.8, 0.8]\<close>; the
  subjectivity is always \<open>0.5\<close>.
\<close>

theorem lexical_only_score:
  assumes "\<not> HAS_TEXTBLOB E"
  shows "\<exists>r. analyze_sentiment E text = Inr r \<and> subjectivity r = 1 / 2
           \<and> (positive_hits text = negative_hits text \<longrightarrow>
                 label r = ''neutral'' \<and> score r = 0)
           \<and> (negative_hits text < positive_hits text \<longrightarrow>
                 label r = ''positive''
                 \<and> score r = min (8 / 10)
                      (3 / 10 + of_int (positive_hits text - negative_hits text) * (1 / 10)))
           \<and> (positive_hits text < negative_hits text \<longrightarrow>
                 label r = ''negative''
                 \<and> score r = - min (8 / 10)
                      (3 / 10 + of_int (negative_hits text - positive_hits text) * (1 / 10)))"
  using assms analyze_with_keywords_shape[of "clean_text text"]
  by (auto simp: analyze_sentiment_def positive_hits_def negative_hits_def Let_def)

theorem lexical_only_score_witness:
  "\<not> HAS_TEXTBLOB lexical_env
   \<and> positive_hits ''This is terrible and awful, total garbage'' = 0
   \<and> negative_hits ''This is terrible and awful, total garbage'' = 3
   \<and> (\<exists>r. analyze_sentiment lexical_env ''This is terrible and awful, total garbage'' = Inr r
          \<and> label r = ''negative'' \<and> score r = - (3 / 5) \<and> subjectivity r = 1 / 2)"
proof -
  have e: "\<not> HAS_TEXTBLOB lexical_env" by (simp add: lexical_env_def)
  have p: "positive_hits ''This is terrible and awful, total garbage'' = 0" by code_simp
  have n: "negative_hits ''This is terrible and awful, total garbage'' = 3" by code_simp
  show ?thesis
    using lexical_only_score[OF e, of "''This is terrible and awful, total garbage''"] e
    unfolding p n by auto
qed

lemma min_score_bounds:
  fixes d :: int
  assumes "0 < d"
  shows "0 < min (8 / 10 :: rat) (3 / 10 + of_int d * (1 / 10))"
    and "min (8 / 10 :: rat) (3 / 10 + of_int d * (1 / 10)) \<le> 1"
proof -
  have "(0::rat) < of_int d" using assms by simp
  then show "0 < min (8 / 10 :: rat) (3 / 10 + of_int d * (1 / 10))"
    by (simp add: min_def)
  show "min (8 / 10 :: rat) (3 / 10 + of_int d * (1 / 10)) \<le> 1"
    by (simp add: min_def)
qed

lemma analyze_with_keywords_contract:
  "\<exists>r. analyze_with_keywords t = Inr r
       \<and> label r \<in> {''positive'', ''negative'', ''neutral''}
       \<and> - 1 \<le> score r \<and> score r \<le> 1 \<and> confidence r = \<bar>score r\<bar>"
proof -
  define p where "p = count_in positive_keywords (py_split t)"
  define n where "n = count_in negative_keywords (py_split t)"
  obtain r where r: "analyze_with_keywords t = Inr r"
    "confidence r = \<bar>score r\<bar>"
    "p = n \<longrightarrow> label r = ''neutral'' \<and> score r = 0"
    "n < p \<longrightarrow> label r = ''positive''
                \<and> score r = min (8 / 10) (3 / 10 + of_int (p - n) * (1 / 10))"
    "p < n \<longrightarrow> label r = ''negative''
                \<and> score r = - min (8 / 10) (3 / 10 + of_int (n - p) * (1 / 10))"
    using analyze_with_keywords_shape[of t] unfolding p_def n_def by blast
  consider "p = n" | "n < p" | "p < n" by linarith
  then show ?thesis
  proof cases
    case 1
    then show ?thesis using r by simp
  next
    case 2
    then have "0 < p - n" by simp
    from min_score_bounds[OF this] 2 r show ?thesis by simp
  next
    case 3
    then have "0 < n - p" by simp
    from min_score_bounds[OF this] 3 r show ?thesis by simp
  qed
qed

lemma analyze_with_textblob_contract:
  assumes "- 1 \<le> fst (textblob E t)" "fst (textblob E t) \<le> 1"
  shows "\<exists>r. analyze_with_textblob E t = Inr r
       \<and> label r \<in> {''positive'', ''negative'', ''neutral''}
       \<and> - 1 \<le> score r \<and> score r \<le> 1 \<and> confidence r = \<bar>score r\<bar>"
proof -
  obtain v where v: "calculate_political_sentiment t = Inr v" "- 1 \<le> v" "v \<le> 1"
    using political_sentiment_range[of t] by blast
  obtain pol subj where ps: "textblob E t = (pol, subj)" by (cases "textblob E t")
  have "- 1 \<le> (pol + v) / 2" "(pol + v) / 2 \<le> 1"
    using assms v ps by simp_all
  then show ?thesis
    unfolding analyze_with_textblob_def ps v by (simp add: Let_def)
qed

text \<open>
  Claim C3. For every input string, the empty one included, \<open>analyze_sentiment\<close> returns
  a result (no exception) whose label is positive, negative or neutral, whose score lies
  in \<open>[-1, 1]\<close> and whose confidence is the absolute value of the score. This holds for
  the lexical-only strategy and for the TextBlob strategy, the latter for a TextBlob
  whose polarity lies in \<open>[-1, 1]\<close>, which is TextBlob's contract.
\<close>

theorem analyze_sentiment_contract:
  assumes "HAS_TEXTBLOB E \<Longrightarrow> \<forall>t. - 1 \<le> fst (textblob E t) \<and> fst (textblob E t) \<le> 1"
  shows "\<exists>r. analyze_sentiment E text = Inr r
       \<and> label r \<in> {''positive'', ''negative'', ''neutral''}
       \<and> - 1 \<le> score r \<and> score r \<le> 1 \<and> confidence r = \<bar>score r\<bar>"
proof (cases "HAS_TEXTBLOB E")
  case True
  with assms have "- 1 \<le> fst (textblob E (clean_text text))"
    "fst (textblob E (clean_text text)) \<le> 1" by simp_all
  from analyze_with_textblob_contract[OF this] True show ?thesis
    by (simp add: analyze_sentiment_def)
next
  case False
  with analyze_with_keywords_contract[of "clean_text text"] show ?thesis
    by (simp add: analyze_sentiment_def)
qed

theorem analyze_sentiment_contract_witness:
  "(\<forall>t. - 1 \<le> fst (textblob textblob_env t) \<and> fst (textblob textblob_env t) \<le> 1)
   \<and> HAS_TEXTBLOB textblob_env
   \<and> (\<exists>r. analyze_sentiment textblob_env ''I love it!'' = Inr r
          \<and> label r \<in> {''positive'', ''negative'', ''neutral''}
          \<and> - 1 \<le> score r \<and> score r \<le> 1 \<and> confidence r = \<bar>score r\<bar>)"
proof -
  have h: "\<forall>t. - 1 \<le> fst (textblob textblob_env t) \<and> fst (textblob textblob_env t) \<le> 1"
    by (simp add: textblob_env_def)
  have t: "HAS_TEXTBLOB textblob_env" by (simp add: textblob_env_def)
  show ?thesis
    using analyze_sentiment_contract[of textblob_env "''I love it!''", OF h] h t by blast
qed

lemma empty_text_scenario:
  "analyze_sentiment lexical_env '''' =
     Inr \<lparr>score = 0, label = ''neutral'', polarity = 0, subjectivity = 1 / 2,
          political_score = 0, confidence = 0, emotion = ''neutral''\<rparr>"
  by code_simp

lemma love_scenario:
  "analyze_sentiment textblob_env ''I love it!'' =
     Inr \<lparr>score = 5 / 12, label = ''positive'', polarity = 1 / 2, subjectivity = 1 / 2,
          political_score = 1 / 3, confidence = 5 / 12, emotion = ''neutral''\<rparr>"
  by code_simp

text \<open>
  Claim C9. For every input text, the detected emotion is decided by testing the keywords
  of five fixed sets for occurrence in the text, in the fixed order anger, joy, fear,
  sadness, surprise: the first set with a keyword that occurs wins, and the emotion is
  neutral when no set has one. (The test is Python's \<open>keyword in text\<close>, substring
  occurrence.)
\<close>

theorem detect_emotion_priority:
  "detect_emotion text =
     (if (\<exists>k\<in>set anger_keywords. sublist k text) then ''anger''
      else if (\<exists>k\<in>set joy_keywords. sublist k text) then ''joy''
      else if (\<exists>k\<in>set fear_keywords. sublist k text) then ''fear''
      else if (\<exists>k\<in>set sadness_keywords. sublist k text) then ''sadness''
      else if (\<exists>k\<in>set surprise_keywords. sublist k text) then ''surprise''
      else ''neutral'')"
  by (simp only: detect_emotion_def emotions_def first_emotion.simps list_ex_contains)

theorem detect_emotion_priority_witness:
  "detect_emotion ''so sad and angry'' = ''anger''
   \<and> (\<exists>k\<in>set sadness_keywords. sublist k ''so sad and angry'')
   \<and> (\<exists>k\<in>set anger_keywords. sublist k ''so sad and angry'')"
proof -
  have a: "sublist ''angry'' ''so sad and angry''"
    by (simp add: contains_sublist[symmetric])
  have s: "sublist ''sad'' ''so sad and angry''"
    by (simp add: contains_sublist[symmetric])
  have A: "\<exists>k\<in>set anger_keywords. sublist k ''so sad and angry''"
    using a by (auto simp: anger_keywords_def)
  have S: "\<exists>k\<in>set sadness_keywords. sublist k ''so sad and angry''"
    using s by (auto simp: sadness_keywords_def)
  show ?thesis
    using detect_emotion_priority[of "''so sad and angry''"] A S by simp
qed

section \<open>Properties of the analytics\<close>

lemma counter_get_add:
  "counter_get (counter_add k c) k' = counter_get c k' + (if k' = k then 1 else 0)"
  by (induction k c rule: counter_add.induct) (auto simp: counter_get_def)

lemma counter_get_fold:
  "counter_get (fold counter_add xs c) k = counter_get c k + int (count_list xs k)"
  by (induction xs arbitrary: c) (simp_all add: counter_get_add)

lemma counter_get_Counter: "counter_get (Counter xs) k = int (count_list xs k)"
  unfolding Counter_def counter_get_fold by (simp add: counter_get_def)

lemma count_three:
  assumes "\<forall>x\<in>set xs. x = a \<or> x = b \<or> x = c" "a \<noteq> b" "a \<noteq> c" "b \<noteq> c"
  shows "count_list xs a + count_list xs b + count_list xs c = length xs"
  using assms by (induction xs) auto

lemma count_list_le_length: "count_list xs a \<le> length xs"
  by (induction xs) auto

lemma bucket_count_step:
  assumes "0 < step" "i < n"
  shows "(n - i + step - 1) div step = Suc ((n - (i + step) + step - 1) div step)"
proof (cases "i + step \<le> n")
  case True
  define m where "m = n - (i + step) + step - 1"
  have "n - i + step - 1 = m + step"
    unfolding m_def using True assms by linarith
  then have "(n - i + step - 1) div step = (m + step) div step" by (rule arg_cong)
  also have "\<dots> = Suc (m div step)" using assms(1) by simp
  finally show ?thesis unfolding m_def .
next
  case False
  define k where "k = n - i + step - 1"
  have a: "n - (i + step) + step - 1 = step - 1" using False by linarith
  have b: "step \<le> k" unfolding k_def using assms by linarith
  have c: "k < 2 * step" unfolding k_def using assms False by linarith
  have "k div step = 1"
  proof -
    have "k div step < 2"
      using c assms(1) by (simp add: less_mult_imp_div_less mult.commute)
    moreover have "1 \<le> k div step"
      using b assms(1) by (simp add: Suc_le_eq div_greater_zero_iff)
    ultimately show ?thesis by linarith
  qed
  moreover have "(step - 1) div step = 0" using assms(1) by simp
  ultimately show ?thesis unfolding k_def a by simp
qed

lemma time_trend_from_eq:
  "0 < step \<Longrightarrow>
   time_trend_from i step rows =
     Inr (map (\<lambda>k. bucket_at rows (i + k * step))
            [0..<(length rows - i + step - 1) div step])"
proof (induction i step rows rule: time_trend_from.induct)
  case (1 i step rows)
  show ?case
  proof (cases "i < length rows")
    case False
    then have "length rows - i + step - 1 = step - 1" by linarith
    then have "(length rows - i + step - 1) div step = 0"
      using "1.prems" by simp
    then show ?thesis using False "1.prems"
      by (simp add: time_trend_from.simps[of i step rows])
  next
    case True
    define batch where "batch = take 10 (drop i rows)"
    have ne: "batch \<noteq> []" using True by (simp add: batch_def)
    then obtain b bs where bb: "batch = b # bs" by (cases batch) auto
    have hd: "b = rows ! i"
    proof -
      have "hd batch = hd (drop i rows)" unfolding batch_def by (simp add: hd_take)
      also have "\<dots> = rows ! i" using True by (simp add: hd_drop_conv_nth)
      finally show ?thesis using bb by simp
    qed
    have len: "rat_of_nat (length batch) \<noteq> 0" using ne by simp
    have s0: "step \<noteq> 0" using "1.prems" by simp
    have IH: "time_trend_from (i + step) step rows =
        Inr (map (\<lambda>k. bucket_at rows (i + step + k * step))
               [0..<(length rows - (i + step) + step - 1) div step])"
      using "1.IH"[OF s0 True batch_def bb "1.prems"] .
    have cnt: "(length rows - i + step - 1) div step
        = Suc ((length rows - (i + step) + step - 1) div step)"
      using bucket_count_step[OF "1.prems" True] .
    have unf: "time_trend_from i step rows =
        Inr (bucket_at rows i #
             map (\<lambda>k. bucket_at rows (i + step + k * step))
               [0..<(length rows - (i + step) + step - 1) div step])"
      using True s0 len
      by (simp add: time_trend_from.simps[of i step rows] batch_def[symmetric] Let_def
          bind_err_def py_truediv_def bb IH bucket_at_def hd)
    show ?thesis
      unfolding unf cnt
      by (simp add: map_upt_Suc add.assoc add.commute del: upt_Suc)
  qed
qed

lemma trend_step_pos: "0 < trend_step n"
  by (simp add: trend_step_def)

lemma time_trend_of_eq:
  "time_trend_of rows =
     Inr (map (\<lambda>k. bucket_at rows (k * trend_step (length rows)))
            [0..<bucket_count (length rows)])"
  using time_trend_from_eq[OF trend_step_pos, of 0 "length rows" rows]
  by (simp add: time_trend_of_def trend_step_def bucket_count_def)

lemma sum_zip_rows:
  "sum_list (map (\<lambda>(s, l). s * of_int l) (zip (map row_score rows) (map row_likes rows)))
   = (\<Sum>r\<leftarrow>rows. row_score r * of_int (row_likes r))"
  by (induction rows) simp_all

lemma weighted_sentiment_of_eq:
  "weighted_sentiment_of rows =
     Inr (if 0 < sum_list (map row_likes rows)
          then (\<Sum>r\<leftarrow>rows. row_score r * of_int (row_likes r))
                 / of_int (sum_list (map row_likes rows))
          else 0)"
  by (simp add: weighted_sentiment_of_def Let_def py_truediv_def sum_zip_rows)

lemma compute_analytics_ok:
  assumes "rows \<noteq> []"
  shows "\<exists>a. compute_analytics rows = Inr a
     \<and> weighted_sentiment_of rows = Inr (weighted_sentiment a)
     \<and> time_trend_of rows = Inr (time_trend a)
     \<and> positive_percentage a
         = of_nat (count_list (map row_label rows) ''positive'') / of_nat (length rows) * 100
     \<and> negative_percentage a
         = of_nat (count_list (map row_label rows) ''negative'') / of_nat (length rows) * 100
     \<and> neutral_percentage a
         = of_nat (count_list (map row_label rows) ''neutral'') / of_nat (length rows) * 100"
proof -
  have n: "rat_of_nat (length rows) \<noteq> 0" using assms by simp
  show ?thesis
    using n assms
    by (simp add: compute_analytics_def Let_def bind_err_def py_truediv_def
        weighted_sentiment_of_eq time_trend_of_eq counter_get_Counter)
qed

lemma get_sentiment_analytics_rows:
  assumes "HAS_SQLITE E" "query_comments db vid = rows" "rows \<noteq> []"
  shows "\<exists>a. get_sentiment_analytics E now g db vid = Inr (a, g)
     \<and> compute_analytics rows = Inr a"
  using assms compute_analytics_ok[OF assms(3)]
  by (auto simp: get_sentiment_analytics_def Let_def bind_err_def)

lemma get_sentiment_analytics_mock:
  assumes "\<not> HAS_SQLITE E \<or> query_comments db vid = []"
  shows "get_sentiment_analytics E now g db vid = Inr (generate_mock_analytics now g)"
  using assms by (auto simp: get_sentiment_analytics_def Let_def)

lemma sum_list_map_nonneg:
  "\<forall>r\<in>set rows. 0 \<le> f r \<Longrightarrow> (0::int) \<le> sum_list (map f rows)"
  by (induction rows) auto

lemma sum_list_map_zero:
  "\<forall>r\<in>set rows. f r = 0 \<Longrightarrow> sum_list (map f rows) = (0::int)"
  by (induction rows) auto

lemma weighted_sentiment_nonempty:
  assumes "HAS_SQLITE E" and "query_comments db vid = rows" and "rows \<noteq> []"
    and "\<forall>r\<in>set rows. 0 \<le> row_likes r"
  shows "\<exists>a. get_sentiment_analytics E now g db vid = Inr (a, g)
     \<and> weighted_sentiment a =
         (if sum_list (map row_likes rows) = 0 then 0
          else (\<Sum>r\<leftarrow>rows. row_score r * of_int (row_likes r))
                 / of_int (sum_list (map row_likes rows)))
     \<and> ((\<forall>r\<in>set rows. row_likes r = 0) \<longrightarrow> weighted_sentiment a = 0)"
proof -
  obtain a where a: "get_sentiment_analytics E now g db vid = Inr (a, g)"
    "compute_analytics rows = Inr a"
    using get_sentiment_analytics_rows[OF assms(1-3)] by blast
  obtain a' where a': "compute_analytics rows = Inr a'"
    "weighted_sentiment_of rows = Inr (weighted_sentiment a')"
    using compute_analytics_ok[OF assms(3)] by blast
  have w: "weighted_sentiment_of rows = Inr (weighted_sentiment a)"
    using a a' by simp
  have nonneg: "0 \<le> sum_list (map row_likes rows)"
    using assms(4) by (rule sum_list_map_nonneg)
  have eq: "weighted_sentiment a =
         (if sum_list (map row_likes rows) = 0 then 0
          else (\<Sum>r\<leftarrow>rows. row_score r * of_int (row_likes r))
                 / of_int (sum_list (map row_likes rows)))"
    using w nonneg unfolding weighted_sentiment_of_eq by auto
  have zero: "(\<forall>r\<in>set rows. row_likes r = 0) \<longrightarrow> sum_list (map row_likes rows) = 0"
    using sum_list_map_zero[of rows row_likes] by blast
  show ?thesis using a(1) eq zero by auto
qed

lemma bucket_count_small: "n < 10 \<Longrightarrow> bucket_count n = n"
  by (simp add: bucket_count_def trend_step_def)

lemma bucket_count_large:
  assumes "10 \<le> n"
  shows "10 \<le> bucket_count n \<and> bucket_count n \<le> 19"
proof -
  define s where "s = n div 10"
  have s1: "1 \<le> s" unfolding s_def using assms by (simp add: Suc_le_eq div_greater_zero_iff)
  have ts: "trend_step n = s" unfolding trend_step_def s_def using s1[unfolded s_def] by simp
  have lo: "10 * s \<le> n" unfolding s_def by simp
  have hi: "n < 10 * s + 10" unfolding s_def by presburger
  have "10 * s \<le> n + s - 1" using lo s1 by linarith
  then have a: "10 \<le> (n + s - 1) div s" using s1
    by (simp add: less_eq_div_iff_mult_less_eq)
  have "n + s - 1 < 20 * s" using hi s1 by linarith
  then have "(n + s - 1) div s < 20" using s1
    by (simp add: less_mult_imp_div_less mult.commute)
  then show ?thesis using a unfolding bucket_count_def ts by simp
qed

lemma bucket_count_multiple:
  assumes "0 < n" "10 dvd n"
  shows "bucket_count n = 10"
proof -
  obtain s where n: "n = 10 * s" using assms(2) by (auto elim: dvdE)
  have s1: "1 \<le> s" using assms(1) n by simp
  have ts: "trend_step n = s" unfolding trend_step_def n using s1 by simp
  have "n + s - 1 = 10 * s + (s - 1)" using n s1 by simp
  then have "(n + s - 1) div s = (10 * s + (s - 1)) div s" by (rule arg_cong)
  also have "\<dots> = 10 + (s - 1) div s"
  proof (rule div_mult_self3)
    show "s \<noteq> 0" using s1 by simp
  qed
  also have "\<dots> = 10" using s1 by simp
  finally show ?thesis unfolding bucket_count_def ts .
qed

lemma query_five_db_likes: "\<forall>r\<in>set (query_comments five_db ''vid''). row_likes r = 0"
  by code_simp

lemma query_liked_db:
  "query_comments liked_db ''vid'' =
     [\<lparr>row_score = - 1, row_label = ''negative'', row_likes = 1, row_timestamp = 5,
        row_text = ''great video'', row_author = ''viewer''\<rparr>,
      \<lparr>row_score = 0, row_label = ''neutral'', row_likes = 0, row_timestamp = 4,
        row_text = ''great video'', row_author = ''viewer''\<rparr>,
      \<lparr>row_score = 1 / 2, row_label = ''positive'', row_likes = 3, row_timestamp = 2,
        row_text = ''great video'', row_author = ''viewer''\<rparr>]"
  by code_simp

text \<open>
  Claim C1, as the code has it. For every non-empty stored comment set of an item, of
  \<open>n\<close> comments, newest first, the time trend has one bucket for each start index
  \<open>0, s, 2s, ...\<close> below \<open>n\<close>, with the stride \<open>s = max 1 (n div 10)\<close>: that is
  \<open>(n + s - 1) div s\<close> buckets, at most 19, exactly 10 when \<open>n\<close> is a multiple of 10,
  and \<open>n\<close> buckets when \<open>n < 10\<close>. Each bucket reports the timestamp of its first
  member, the comment at its start index, and the mean sentiment score of its batch,
  the up to ten consecutive comments from that index on.
\<close>

theorem time_trend_windows:
  assumes "HAS_SQLITE E" and "query_comments db vid = rows" and "rows \<noteq> []"
  shows "\<exists>a. get_sentiment_analytics E now g db vid = Inr (a, g)
     \<and> time_trend a =
         map (\<lambda>k. bucket_at rows (k * trend_step (length rows)))
           [0..<bucket_count (length rows)]
     \<and> length (time_trend a) = bucket_count (length rows)
     \<and> bucket_count (length rows) \<le> 19
     \<and> (length rows < 10 \<longrightarrow> bucket_count (length rows) = length rows)
     \<and> (10 dvd length rows \<longrightarrow> bucket_count (length rows) = 10)"
proof -
  obtain a where a: "get_sentiment_analytics E now g db vid = Inr (a, g)"
    "compute_analytics rows = Inr a"
    using get_sentiment_analytics_rows[OF assms] by blast
  obtain a' where a': "compute_analytics rows = Inr a'"
    "time_trend_of rows = Inr (time_trend a')"
    using compute_analytics_ok[OF assms(3)] by blast
  have t: "time_trend a =
         map (\<lambda>k. bucket_at rows (k * trend_step (length rows)))
           [0..<bucket_count (length rows)]"
    using a a' unfolding time_trend_of_eq by simp
  have pos: "0 < length rows" using assms(3) by simp
  have b19: "bucket_count (length rows) \<le> 19"
  proof (cases "length rows < 10")
    case True
    then show ?thesis by (simp add: bucket_count_small)
  next
    case False
    then show ?thesis using bucket_count_large[of "length rows"] by simp
  qed
  show ?thesis
    using a(1) t b19 bucket_count_small[of "length rows"]
      bucket_count_multiple[OF pos] by simp
qed

text \<open>
  The claim as first stated (batches of size \<open>n / 10\<close> rounded up, at most 10 buckets,
  exactly one bucket below 10 comments) fails: five comments give five buckets, the
  first of them the mean of all five scores, and nineteen comments give nineteen buckets.
\<close>

theorem time_trend_counterexample:
  "length (query_comments five_db ''vid'') = 5
   \<and> trend_of_result (get_sentiment_analytics lexical_env 0 zero_rng five_db ''vid'')
       = Some [(5, 1 / 5), (4, 0), (3, 0), (2, 0), (1, 0)]
   \<and> length (query_comments nineteen_db ''vid'') = 19
   \<and> map_option length
        (trend_of_result (get_sentiment_analytics lexical_env 0 zero_rng nineteen_db ''vid''))
       = Some 19"
  by code_simp

lemma query_five_db:
  "query_comments five_db ''vid'' =
     [\<lparr>row_score = 1, row_label = ''positive'', row_likes = 0, row_timestamp = 5,
        row_text = ''great video'', row_author = ''viewer''\<rparr>,
      \<lparr>row_score = 0, row_label = ''neutral'', row_likes = 0, row_timestamp = 4,
        row_text = ''great video'', row_author = ''viewer''\<rparr>,
      \<lparr>row_score = 0, row_label = ''neutral'', row_likes = 0, row_timestamp = 3,
        row_text = ''great video'', row_author = ''viewer''\<rparr>,
      \<lparr>row_score = 0, row_label = ''neutral'', row_likes = 0, row_timestamp = 2,
        row_text = ''great video'', row_author = ''viewer''\<rparr>,
      \<lparr>row_score = 0, row_label = ''neutral'', row_likes = 0, row_timestamp = 1,
        row_text = ''great video'', row_author = ''viewer''\<rparr>]"
  by code_simp

theorem time_trend_windows_witness:
  "HAS_SQLITE lexical_env
   \<and> query_comments five_db ''vid'' \<noteq> []
   \<and> (\<exists>a. get_sentiment_analytics lexical_env 0 zero_rng five_db ''vid'' = Inr (a, zero_rng)
          \<and> length (time_trend a) = 5
          \<and> bucket_count (length (query_comments five_db ''vid'')) = 5)"
proof -
  have e: "HAS_SQLITE lexical_env" by (simp add: lexical_env_def)
  have ne: "query_comments five_db ''vid'' \<noteq> []" by (simp add: query_five_db)
  have len: "length (query_comments five_db ''vid'') = 5" by (simp add: query_five_db)
  show ?thesis
    using time_trend_windows[OF e refl ne, of 0 zero_rng] e ne
    unfolding len by auto
qed

lemma random_unit_range: "0 \<le> fst (random_unit g) \<and> fst (random_unit g) < 1"
proof (cases g)
  case (Rng f i)
  define m where "m = f i mod 2 ^ 53"
  have m0: "0 \<le> m" unfolding m_def by simp
  have m1: "m < 2 ^ 53" unfolding m_def by simp
  have "rat_of_int m < rat_of_int (2 ^ 53)" using m1 by (simp only: of_int_less_iff)
  then have lt: "rat_of_int m < 2 ^ 53" by simp
  have "0 \<le> rat_of_int m / 2 ^ 53" using m0 by simp
  moreover have "rat_of_int m / 2 ^ 53 < 1" using lt by (simp only: divide_less_eq_1_pos zero_less_numeral zero_less_power)
  ultimately show ?thesis using Rng by (simp add: random_unit_def m_def)
qed

lemma uniform_range:
  assumes "a \<le> b"
  shows "a \<le> fst (uniform a b g) \<and> fst (uniform a b g) \<le> b"
proof -
  define u where "u = fst (random_unit g)"
  have u: "0 \<le> u" "u < 1" using random_unit_range[of g] by (simp_all add: u_def)
  have eq: "fst (uniform a b g) = a + (b - a) * u"
    by (simp add: uniform_def u_def case_prod_beta)
  have d: "0 \<le> b - a" using assms by simp
  have "0 \<le> (b - a) * u" using d u(1) by simp
  moreover have "(b - a) * u \<le> (b - a) * 1"
    using d u(2) by (intro mult_left_mono) simp_all
  ultimately show ?thesis unfolding eq by simp
qed

lemma py_round_bounds:
  assumes "of_int l \<le> x" "x \<le> of_int h"
  shows "l \<le> py_round x \<and> py_round x \<le> h"
proof -
  have fl: "l \<le> \<lfloor>x\<rfloor>" using assms(1) by (simp add: le_floor_iff)
  have fh: "\<lfloor>x\<rfloor> \<le> h" using assms(2) by (simp add: floor_le_iff) 
  have lo: "\<lfloor>x\<rfloor> \<le> py_round x" by (simp add: py_round_def Let_def)
  have up: "py_round x \<le> h"
  proof (cases "\<lfloor>x\<rfloor> = h")
    case True
    then have "x - of_int \<lfloor>x\<rfloor> \<le> 0" using assms(2) by simp
    then have "x - of_int \<lfloor>x\<rfloor> < 1 / 2" by simp
    then show ?thesis using True by (simp add: py_round_def Let_def)
  next
    case False
    then have "\<lfloor>x\<rfloor> + 1 \<le> h" using fh by simp
    moreover have "py_round x \<le> \<lfloor>x\<rfloor> + 1" by (simp add: py_round_def Let_def)
    ultimately show ?thesis by simp
  qed
  show ?thesis using fl lo up by simp
qed

lemma py_round_digits_1_bounds:
  assumes "of_int l \<le> x" "x \<le> of_int h"
  shows "of_int l \<le> py_round_digits x 1 \<and> py_round_digits x 1 \<le> of_int h"
proof -
  have a: "of_int (l * 10) \<le> x * 10" using assms(1) by simp
  have b: "x * 10 \<le> of_int (h * 10)" using assms(2) by simp
  have r: "l * 10 \<le> py_round (x * 10)" "py_round (x * 10) \<le> h * 10"
    using py_round_bounds[OF a b] by simp_all
  have "rat_of_int (l * 10) \<le> of_int (py_round (x * 10))"
    using r(1) by (simp only: of_int_le_iff)
  moreover have "rat_of_int (py_round (x * 10)) \<le> of_int (h * 10)"
    using r(2) by (simp only: of_int_le_iff)
  ultimately show ?thesis by (simp add: py_round_digits_def)
qed

lemma mock_percentages:
  "\<exists>g6 g7 g8.
     positive_percentage (fst (generate_mock_analytics now g))
       = py_round_digits (fst (uniform 35 65 g6)) 1
   \<and> negative_percentage (fst (generate_mock_analytics now g))
       = py_round_digits (fst (uniform 15 35 g7)) 1
   \<and> neutral_percentage (fst (generate_mock_analytics now g))
       = py_round_digits (fst (uniform 20 40 g8)) 1"
  unfolding generate_mock_analytics_def Let_def case_prod_beta
  by (simp only: fst_conv analytics.simps) blast

lemma mock_percentage_ranges:
  fixes now g
  defines "a \<equiv> fst (generate_mock_analytics now g)"
  shows "35 \<le> positive_percentage a \<and> positive_percentage a \<le> 65
       \<and> 15 \<le> negative_percentage a \<and> negative_percentage a \<le> 35
       \<and> 20 \<le> neutral_percentage a \<and> neutral_percentage a \<le> 40"
proof -
  obtain g6 g7 g8 where
    p: "positive_percentage a = py_round_digits (fst (uniform 35 65 g6)) 1" and
    n: "negative_percentage a = py_round_digits (fst (uniform 15 35 g7)) 1" and
    u: "neutral_percentage a = py_round_digits (fst (uniform 20 40 g8)) 1"
    using mock_percentages[of now g] unfolding a_def by blast
  have bp: "rat_of_int 35 \<le> fst (uniform 35 65 g6)" "fst (uniform 35 65 g6) \<le> rat_of_int 65"
    using uniform_range[of 35 65 g6] by simp_all
  have bn: "rat_of_int 15 \<le> fst (uniform 15 35 g7)" "fst (uniform 15 35 g7) \<le> rat_of_int 35"
    using uniform_range[of 15 35 g7] by simp_all
  have bu: "rat_of_int 20 \<le> fst (uniform 20 40 g8)" "fst (uniform 20 40 g8) \<le> rat_of_int 40"
    using uniform_range[of 20 40 g8] by simp_all
  show ?thesis
    unfolding p n u
    using py_round_digits_1_bounds[OF bp] py_round_digits_1_bounds[OF bn]
      py_round_digits_1_bounds[OF bu] by simp
qed

lemma percentages_three_labels:
  assumes "rows \<noteq> []"
    and "\<forall>r\<in>set rows. row_label r = ''positive'' \<or> row_label r = ''negative''
           \<or> row_label r = ''neutral''"
  shows "\<exists>a. compute_analytics rows = Inr a
     \<and> 0 \<le> positive_percentage a \<and> positive_percentage a \<le> 100
     \<and> 0 \<le> negative_percentage a \<and> negative_percentage a \<le> 100
     \<and> 0 \<le> neutral_percentage a \<and> neutral_percentage a \<le> 100
     \<and> percentage_sum a = 100"
proof -
  define ls where "ls = map row_label rows"
  define n where "n = length rows"
  have npos: "0 < n" using assms(1) by (simp add: n_def)
  have len: "length ls = n" by (simp add: ls_def n_def)
  obtain a where a: "compute_analytics rows = Inr a"
    "positive_percentage a = of_nat (count_list ls ''positive'') / of_nat n * 100"
    "negative_percentage a = of_nat (count_list ls ''negative'') / of_nat n * 100"
    "neutral_percentage a = of_nat (count_list ls ''neutral'') / of_nat n * 100"
    using compute_analytics_ok[OF assms(1)] unfolding ls_def n_def by blast
  have all: "\<forall>x\<in>set ls. x = ''positive'' \<or> x = ''negative'' \<or> x = ''neutral''"
    using assms(2) by (simp add: ls_def)
  have total: "count_list ls ''positive'' + count_list ls ''negative''
      + count_list ls ''neutral'' = n"
    using count_three[OF all] len by simp
  have frac: "\<And>c::nat. c \<le> n \<Longrightarrow>
      0 \<le> rat_of_nat c / of_nat n * 100 \<and> rat_of_nat c / of_nat n * 100 \<le> 100"
  proof -
    fix c :: nat assume "c \<le> n"
    then have "rat_of_nat c \<le> rat_of_nat n" by simp
    then have q: "rat_of_nat c / of_nat n \<le> 1" using npos by (simp add: divide_le_eq)
    define q where "q = rat_of_nat c / of_nat n"
    have "0 \<le> q" unfolding q_def by simp
    moreover have "q \<le> 1" using q unfolding q_def .
    ultimately have "0 \<le> q * 100 \<and> q * 100 \<le> 100" by linarith
    then show "0 \<le> rat_of_nat c / of_nat n * 100 \<and> rat_of_nat c / of_nat n * 100 \<le> 100"
      unfolding q_def .
  qed
  have le: "count_list ls ''positive'' \<le> n" "count_list ls ''negative'' \<le> n"
    "count_list ls ''neutral'' \<le> n"
    using count_list_le_length[of ls] len by simp_all
  have sum: "percentage_sum a = 100"
  proof -
    have "percentage_sum a =
        rat_of_nat (count_list ls ''positive'' + count_list ls ''negative''
          + count_list ls ''neutral'') / of_nat n * 100"
      unfolding percentage_sum_def a by (simp add: add_divide_distrib distrib_right)
    also have "\<dots> = rat_of_nat n / of_nat n * 100" unfolding total ..
    also have "\<dots> = 100" using npos by simp
    finally show ?thesis .
  qed
  have bp: "0 \<le> positive_percentage a \<and> positive_percentage a \<le> 100"
    unfolding a(2) by (rule frac[OF le(1)])
  have bn: "0 \<le> negative_percentage a \<and> negative_percentage a \<le> 100"
    unfolding a(3) by (rule frac[OF le(2)])
  have bu: "0 \<le> neutral_percentage a \<and> neutral_percentage a \<le> 100"
    unfolding a(4) by (rule frac[OF le(3)])
  show ?thesis
    using a(1) sum bp bn bu by blast
qed

text \<open>
  Claim C2, as the code has it. For every non-empty comment set the analytics are computed
  from, with the labels the scorer gives (positive, negative, neutral), the three
  label percentages are each in \<open>[0, 100]\<close> and sum to 100. For the empty set, and
  without a database, the synthetic fallback draws the three percentages
  independently: positive in \<open>[35, 65]\<close>, negative in \<open>[15, 35]\<close>, neutral in
  \<open>[20, 40]\<close>, so each is in \<open>[0, 100]\<close> and their sum lies in \<open>[70, 140]\<close>.
\<close>

theorem percentage_distribution:
  "(HAS_SQLITE E \<and> query_comments db vid \<noteq> []
      \<and> (\<forall>r\<in>set (query_comments db vid). row_label r = ''positive''
            \<or> row_label r = ''negative'' \<or> row_label r = ''neutral'')
    \<longrightarrow> (\<exists>a. get_sentiment_analytics E now g db vid = Inr (a, g)
          \<and> 0 \<le> positive_percentage a \<and> positive_percentage a \<le> 100
          \<and> 0 \<le> negative_percentage a \<and> negative_percentage a \<le> 100
          \<and> 0 \<le> neutral_percentage a \<and> neutral_percentage a \<le> 100
          \<and> percentage_sum a = 100))
   \<and> (\<not> HAS_SQLITE E \<or> query_comments db vid = []
    \<longrightarrow> (\<exists>a g'. get_sentiment_analytics E now g db vid = Inr (a, g')
          \<and> 35 \<le> positive_percentage a \<and> positive_percentage a \<le> 65
          \<and> 15 \<le> negative_percentage a \<and> negative_percentage a \<le> 35
          \<and> 20 \<le> neutral_percentage a \<and> neutral_percentage a \<le> 40
          \<and> 70 \<le> percentage_sum a \<and> percentage_sum a \<le> 140))"
proof (intro conjI impI)
  assume h: "HAS_SQLITE E \<and> query_comments db vid \<noteq> []
      \<and> (\<forall>r\<in>set (query_comments db vid). row_label r = ''positive''
            \<or> row_label r = ''negative'' \<or> row_label r = ''neutral'')"
  then have ne: "query_comments db vid \<noteq> []" and sq: "HAS_SQLITE E" by simp_all
  obtain a where a: "get_sentiment_analytics E now g db vid = Inr (a, g)"
    "compute_analytics (query_comments db vid) = Inr a"
    using get_sentiment_analytics_rows[OF sq refl ne] by blast
  show "\<exists>a. get_sentiment_analytics E now g db vid = Inr (a, g)
          \<and> 0 \<le> positive_percentage a \<and> positive_percentage a \<le> 100
          \<and> 0 \<le> negative_percentage a \<and> negative_percentage a \<le> 100
          \<and> 0 \<le> neutral_percentage a \<and> neutral_percentage a \<le> 100
          \<and> percentage_sum a = 100"
    using percentages_three_labels[OF ne] h a by auto
next
  assume h: "\<not> HAS_SQLITE E \<or> query_comments db vid = []"
  define m where "m = fst (generate_mock_analytics now g)"
  have eq: "get_sentiment_analytics E now g db vid = Inr (m, snd (generate_mock_analytics now g))"
    using get_sentiment_analytics_mock[OF h] by (simp add: m_def)
  have r: "35 \<le> positive_percentage m \<and> positive_percentage m \<le> 65
       \<and> 15 \<le> negative_percentage m \<and> negative_percentage m \<le> 35
       \<and> 20 \<le> neutral_percentage m \<and> neutral_percentage m \<le> 40"
    using mock_percentage_ranges[of now g] unfolding m_def .
  then have s: "70 \<le> percentage_sum m \<and> percentage_sum m \<le> 140"
    unfolding percentage_sum_def by linarith
  show "\<exists>a g'. get_sentiment_analytics E now g db vid = Inr (a, g')
          \<and> 35 \<le> positive_percentage a \<and> positive_percentage a \<le> 65
          \<and> 15 \<le> negative_percentage a \<and> negative_percentage a \<le> 35
          \<and> 20 \<le> neutral_percentage a \<and> neutral_percentage a \<le> 40
          \<and> 70 \<le> percentage_sum a \<and> percentage_sum a \<le> 140"
    using eq r s by blast
qed

text \<open>
  The claim as first stated fails on the empty set: with the smallest draws the fallback
  reports 35, 15 and 20 per cent, which sum to 70.
\<close>

theorem percentage_distribution_counterexample:
  "query_comments [] ''vid'' = []
   \<and> map_option percentage_sum
        (result_analytics (get_sentiment_analytics lexical_env 0 zero_rng [] ''vid''))
       = Some 70"
  by code_simp

theorem percentage_distribution_witness:
  "HAS_SQLITE lexical_env
   \<and> query_comments five_db ''vid'' \<noteq> []
   \<and> map row_label (query_comments five_db ''vid'')
       = [''positive'', ''neutral'', ''neutral'', ''neutral'', ''neutral'']
   \<and> (\<exists>a. get_sentiment_analytics lexical_env 0 zero_rng five_db ''vid'' = Inr (a, zero_rng)
          \<and> percentage_sum a = 100)
   \<and> query_comments [] ''vid'' = []
   \<and> (\<exists>a g'. get_sentiment_analytics lexical_env 0 zero_rng [] ''vid'' = Inr (a, g')
          \<and> 70 \<le> percentage_sum a \<and> percentage_sum a \<le> 140)"
proof -
  have e: "HAS_SQLITE lexical_env" by (simp add: lexical_env_def)
  have ne: "query_comments five_db ''vid'' \<noteq> []" by (simp add: query_five_db)
  have lab: "\<forall>r\<in>set (query_comments five_db ''vid''). row_label r = ''positive''
         \<or> row_label r = ''negative'' \<or> row_label r = ''neutral''"
    by (simp add: query_five_db)
  have emp: "query_comments [] ''vid'' = []" by (simp add: query_comments_def)
  have w1: "\<exists>a. get_sentiment_analytics lexical_env 0 zero_rng five_db ''vid'' = Inr (a, zero_rng)
          \<and> percentage_sum a = 100"
    using percentage_distribution[of lexical_env five_db "''vid''" 0 zero_rng] e ne lab
    by blast
  have w2: "\<exists>a g'. get_sentiment_analytics lexical_env 0 zero_rng [] ''vid'' = Inr (a, g')
          \<and> 70 \<le> percentage_sum a \<and> percentage_sum a \<le> 140"
    using percentage_distribution[of lexical_env "[]" "''vid''" 0 zero_rng] emp
    by blast
  have labs: "map row_label (query_comments five_db ''vid'')
       = [''positive'', ''neutral'', ''neutral'', ''neutral'', ''neutral'']"
    by (simp add: query_five_db)
  show ?thesis using e ne labs w1 emp w2 by blast
qed

lemma py_round_digits_3_bounds:
  assumes "of_int l \<le> x * 1000" "x * 1000 \<le> of_int h"
  shows "of_int l / 1000 \<le> py_round_digits x 3 \<and> py_round_digits x 3 \<le> of_int h / 1000"
proof -
  have r: "l \<le> py_round (x * 1000)" "py_round (x * 1000) \<le> h"
    using py_round_bounds[OF assms] by simp_all
  have a: "rat_of_int l \<le> of_int (py_round (x * 1000))"
    using r(1) by (simp only: of_int_le_iff)
  have b: "rat_of_int (py_round (x * 1000)) \<le> of_int h"
    using r(2) by (simp only: of_int_le_iff)
  have e: "py_round_digits x 3 = of_int (py_round (x * 1000)) / 1000"
    by (simp add: py_round_digits_def)
  show ?thesis unfolding e using a b by (simp add: divide_right_mono)
qed

lemma mock_weighted_range:
  "- (3 / 10) \<le> weighted_sentiment (fst (generate_mock_analytics now g))
   \<and> weighted_sentiment (fst (generate_mock_analytics now g)) \<le> 8 / 10"
proof -
  have "\<exists>g2. weighted_sentiment (fst (generate_mock_analytics now g))
      = py_round_digits (fst (uniform (- (3 / 10)) (8 / 10) g2)) 3"
    unfolding generate_mock_analytics_def Let_def case_prod_beta
    by (simp only: fst_conv analytics.simps) blast
  then obtain g2 where w: "weighted_sentiment (fst (generate_mock_analytics now g))
      = py_round_digits (fst (uniform (- (3 / 10)) (8 / 10) g2)) 3" by blast
  define u where "u = fst (uniform (- (3 / 10)) (8 / 10) g2)"
  have ur: "- (3 / 10) \<le> u" "u \<le> 8 / 10"
    using uniform_range[of "- (3 / 10)" "8 / 10" g2] by (simp_all add: u_def)
  have lo: "rat_of_int (- 300) \<le> u * 1000" using ur(1) by simp
  have hi: "u * 1000 \<le> rat_of_int 800" using ur(2) by simp
  from py_round_digits_3_bounds[OF lo hi] show ?thesis
    unfolding w u_def[symmetric] by simp
qed

text \<open>
  Claim C7, as the code has it. For a non-empty stored set of top-level comments of an
  item, with non-negative like counts, the like-weighted sentiment is the sum of score
  times likes divided by the sum of likes, and it is exactly 0, returned as a value and
  not as an error, whenever the likes sum to 0; in particular when every comment has
  zero likes. For the empty store, and without a database, the analytics are the
  synthetic fallback: its weighted sentiment is a draw from \<open>[-0.3, 0.8]\<close> rounded to
  three decimals, returned as a value, and not 0 in general.
\<close>

theorem like_weighted_sentiment:
  "(HAS_SQLITE E \<and> query_comments db vid \<noteq> []
      \<and> (\<forall>r\<in>set (query_comments db vid). 0 \<le> row_likes r)
    \<longrightarrow> (\<exists>a. get_sentiment_analytics E now g db vid = Inr (a, g)
          \<and> weighted_sentiment a =
              (if sum_list (map row_likes (query_comments db vid)) = 0 then 0
               else (\<Sum>r\<leftarrow>query_comments db vid. row_score r * of_int (row_likes r))
                      / of_int (sum_list (map row_likes (query_comments db vid))))
          \<and> ((\<forall>r\<in>set (query_comments db vid). row_likes r = 0)
                \<longrightarrow> weighted_sentiment a = 0)))
   \<and> (\<not> HAS_SQLITE E \<or> query_comments db vid = []
    \<longrightarrow> (\<exists>a g'. get_sentiment_analytics E now g db vid = Inr (a, g')
          \<and> - (3 / 10) \<le> weighted_sentiment a \<and> weighted_sentiment a \<le> 8 / 10))"
proof (intro conjI impI)
  assume h: "HAS_SQLITE E \<and> query_comments db vid \<noteq> []
      \<and> (\<forall>r\<in>set (query_comments db vid). 0 \<le> row_likes r)"
  then have sq: "HAS_SQLITE E" and ne: "query_comments db vid \<noteq> []"
    and lk: "\<forall>r\<in>set (query_comments db vid). 0 \<le> row_likes r" by simp_all
  show "\<exists>a. get_sentiment_analytics E now g db vid = Inr (a, g)
          \<and> weighted_sentiment a =
              (if sum_list (map row_likes (query_comments db vid)) = 0 then 0
               else (\<Sum>r\<leftarrow>query_comments db vid. row_score r * of_int (row_likes r))
                      / of_int (sum_list (map row_likes (query_comments db vid))))
          \<and> ((\<forall>r\<in>set (query_comments db vid). row_likes r = 0)
                \<longrightarrow> weighted_sentiment a = 0)"
    using weighted_sentiment_nonempty[OF sq refl ne lk, of now g] .
next
  assume h: "\<not> HAS_SQLITE E \<or> query_comments db vid = []"
  define m where "m = fst (generate_mock_analytics now g)"
  have eq: "get_sentiment_analytics E now g db vid = Inr (m, snd (generate_mock_analytics now g))"
    using get_sentiment_analytics_mock[OF h] by (simp add: m_def)
  have r: "- (3 / 10) \<le> weighted_sentiment m \<and> weighted_sentiment m \<le> 8 / 10"
    using mock_weighted_range[of now g] unfolding m_def .
  show "\<exists>a g'. get_sentiment_analytics E now g db vid = Inr (a, g')
          \<and> - (3 / 10) \<le> weighted_sentiment a \<and> weighted_sentiment a \<le> 8 / 10"
    using eq r by blast
qed

text \<open>
  The claim as first stated, that the weighted sentiment is 0 whenever the likes sum to
  0, fails on the empty store: there the likes sum to 0 and, with the smallest draws,
  the fallback reports \<open>-0.3\<close>.
\<close>

theorem like_weighted_sentiment_counterexample:
  "query_comments [] ''vid'' = []
   \<and> sum_list (map row_likes (query_comments [] ''vid'')) = 0
   \<and> map_option weighted_sentiment
        (result_analytics (get_sentiment_analytics lexical_env 0 zero_rng [] ''vid''))
       = Some (- (3 / 10))"
  by code_simp

theorem like_weighted_sentiment_witness:
  "HAS_SQLITE lexical_env
   \<and> query_comments liked_db ''vid'' \<noteq> []
   \<and> map row_likes (query_comments liked_db ''vid'') = [1, 0, 3]
   \<and> (\<exists>a. get_sentiment_analytics lexical_env 0 zero_rng liked_db ''vid'' = Inr (a, zero_rng)
          \<and> weighted_sentiment a = 1 / 8)
   \<and> query_comments five_db ''vid'' \<noteq> []
   \<and> map row_likes (query_comments five_db ''vid'') = [0, 0, 0, 0, 0]
   \<and> (\<exists>a. get_sentiment_analytics lexical_env 0 zero_rng five_db ''vid'' = Inr (a, zero_rng)
          \<and> weighted_sentiment a = 0)
   \<and> query_comments [] ''vid'' = []
   \<and> (\<exists>a g'. get_sentiment_analytics lexical_env 0 zero_rng [] ''vid'' = Inr (a, g')
          \<and> - (3 / 10) \<le> weighted_sentiment a \<and> weighted_sentiment a \<le> 8 / 10)"
proof -
  have e: "HAS_SQLITE lexical_env" by (simp add: lexical_env_def)
  have ne1: "query_comments liked_db ''vid'' \<noteq> []" by (simp add: query_liked_db)
  have l1: "\<forall>r\<in>set (query_comments liked_db ''vid''). 0 \<le> row_likes r"
    by (simp add: query_liked_db)
  have ne2: "query_comments five_db ''vid'' \<noteq> []" by (simp add: query_five_db)
  have z2: "\<forall>r\<in>set (query_comments five_db ''vid''). row_likes r = 0"
    by (rule query_five_db_likes)
  then have l2: "\<forall>r\<in>set (query_comments five_db ''vid''). 0 \<le> row_likes r" by simp
  have emp: "query_comments [] ''vid'' = []" by (simp add: query_comments_def)
  have w1: "\<exists>a. get_sentiment_analytics lexical_env 0 zero_rng liked_db ''vid'' = Inr (a, zero_rng)
          \<and> weighted_sentiment a = 1 / 8"
    using like_weighted_sentiment[of lexical_env liked_db "''vid''" 0 zero_rng] e ne1 l1
    by (simp add: query_liked_db)
  have w2: "\<exists>a. get_sentiment_analytics lexical_env 0 zero_rng five_db ''vid'' = Inr (a, zero_rng)
          \<and> weighted_sentiment a = 0"
    using like_weighted_sentiment[of lexical_env five_db "''vid''" 0 zero_rng] e ne2 l2 z2
    by blast
  have w3: "\<exists>a g'. get_sentiment_analytics lexical_env 0 zero_rng [] ''vid'' = Inr (a, g')
          \<and> - (3 / 10) \<le> weighted_sentiment a \<and> weighted_sentiment a \<le> 8 / 10"
    using like_weighted_sentiment[of lexical_env "[]" "''vid''" 0 zero_rng] emp by blast
  have m1: "map row_likes (query_comments liked_db ''vid'') = [1, 0, 3]"
    by (simp add: query_liked_db)
  have m2: "map row_likes (query_comments five_db ''vid'') = [0, 0, 0, 0, 0]"
    by (simp add: query_five_db)
  show ?thesis using e ne1 m1 w1 ne2 m2 w2 emp w3 by blast
qed

section \<open>Properties of the id extraction\<close>





text \<open>
  Claim C10. For a URL of host \<open>youtube.com\<close> or \<open>www.youtube.com\<close> whose path is
  exactly \<open>/watch\<close> and whose query has no parameter \<open>v\<close>, extraction raises
  \<open>KeyError\<close> from the lookup: it does not go on to the regex fallback and does not
  raise the \<open>ValueError\<close> of an unrecognised URL.
\<close>

theorem watch_without_v_raises_KeyError:
  assumes "urlparse ok url = Inr p"
    and "hostname p = Some ''youtube.com'' \<or> hostname p = Some ''www.youtube.com''"
    and "pr_path p = ''/watch''"
    and "map_of (parse_qsl (pr_query p)) ''v'' = None"
  shows "extract_video_id ok url = Inl KeyError
         \<and> extract_video_id ok url \<noteq> regex_fallback url"
  using assms
  by (auto simp: extract_video_id_def bind_err_def parse_qs_first_def regex_fallback_def
      split: option.splits)




lemma urlparse_watch_bare:
  "urlparse any_host_ok ''https://www.youtube.com/watch'' =
     Inr \<lparr>pr_scheme = ''https'', pr_netloc = ''www.youtube.com'',
          pr_path = ''/watch'', pr_params = '''', pr_query = '''',
          pr_fragment = ''''\<rparr>"
  by code_simp

lemma urlparse_watch_feature:
  "urlparse any_host_ok ''https://www.youtube.com/watch?feature=/O6DTtVOPwEU'' =
     Inr \<lparr>pr_scheme = ''https'', pr_netloc = ''www.youtube.com'',
          pr_path = ''/watch'', pr_params = '''', pr_query = ''feature=/O6DTtVOPwEU'',
          pr_fragment = ''''\<rparr>"
  by code_simp


theorem watch_without_v_raises_KeyError_witness:
  "extract_video_id any_host_ok ''https://www.youtube.com/watch'' = Inl KeyError
   \<and> id_search ''https://www.youtube.com/watch?feature=/O6DTtVOPwEU'' = Some ''O6DTtVOPwEU''
   \<and> extract_video_id any_host_ok ''https://www.youtube.com/watch?feature=/O6DTtVOPwEU''
       = Inl KeyError"
proof -
  let ?b = "\<lparr>pr_scheme = ''https'', pr_netloc = ''www.youtube.com'',
          pr_path = ''/watch'', pr_params = '''', pr_query = '''',
          pr_fragment = ''''\<rparr>"
  let ?f = "\<lparr>pr_scheme = ''https'', pr_netloc = ''www.youtube.com'',
          pr_path = ''/watch'', pr_params = '''', pr_query = ''feature=/O6DTtVOPwEU'',
          pr_fragment = ''''\<rparr>"
  have hb: "hostname ?b = Some ''youtube.com'' \<or> hostname ?b = Some ''www.youtube.com''"
    by code_simp
  have hf: "hostname ?f = Some ''youtube.com'' \<or> hostname ?f = Some ''www.youtube.com''"
    by code_simp
  have pb: "pr_path ?b = ''/watch''" by simp
  have pf: "pr_path ?f = ''/watch''" by simp
  have qb: "map_of (parse_qsl (pr_query ?b)) ''v'' = None" by code_simp
  have qf: "map_of (parse_qsl (pr_query ?f)) ''v'' = None" by code_simp
  have sf: "id_search ''https://www.youtube.com/watch?feature=/O6DTtVOPwEU''
      = Some ''O6DTtVOPwEU''" by code_simp
  have w1: "extract_video_id any_host_ok ''https://www.youtube.com/watch'' = Inl KeyError"
    using watch_without_v_raises_KeyError[OF urlparse_watch_bare hb pb qb] by simp
  have w2: "extract_video_id any_host_ok ''https://www.youtube.com/watch?feature=/O6DTtVOPwEU''
       = Inl KeyError"
    using watch_without_v_raises_KeyError[OF urlparse_watch_feature hf pf qf] by simp
  show ?thesis using w1 sf w2 by blast
qed

section \<open>Properties of the comment acquisition\<close>

lemma analyze_sentiment_total: "\<exists>r. analyze_sentiment E t = Inr r"
proof -
  obtain v where v: "calculate_political_sentiment (clean_text t) = Inr v"
    using political_sentiment_range[of "clean_text t"] by blast
  show ?thesis
    by (simp add: analyze_sentiment_def analyze_with_textblob_def analyze_with_keywords_def v
        Let_def case_prod_beta)
qed

lemma length_political_comments: "length political_comments = 30"
  by (simp add: political_comments_def)

lemma choice_in_set: "xs \<noteq> [] \<Longrightarrow> fst (choice xs g) \<in> set xs"
proof (cases g)
  case (Rng f i)
  assume ne: "xs \<noteq> []"
  then have pos: "0 < int (length xs)" by simp
  have "0 \<le> f i mod int (length xs)" using pos by simp
  moreover have "f i mod int (length xs) < int (length xs)" using pos by simp
  ultimately have "nat (f i mod int (length xs)) < length xs" by linarith
  then show ?thesis using Rng by (simp add: choice_def)
qed

lemma mock_base_loop_ok:
  "i + k \<le> 30 \<Longrightarrow>
   \<exists>cs g'. mock_base_loop E now vid k i g = Inr (cs, g') \<and> length cs = k
     \<and> (\<forall>j<k. comment_text (cs ! j) = political_comments ! (i + j)
            \<and> comment_id (cs ! j) = ''mock_'' @ vid @ ''_'' @ show_nat (i + j))"
proof (induction k arbitrary: i g)
  case 0
  then show ?case by simp
next
  case (Suc k)
  have idx: "py_index political_comments i = Inr (political_comments ! i)"
    using Suc.prems by (simp add: py_index_def length_political_comments)
  obtain r where r: "analyze_sentiment E (political_comments ! i) = Inr r"
    using analyze_sentiment_total by blast
  define g3 where "g3 = snd (randint 0 8 (snd (randint 1 2880 (snd (randint 0 100 g)))))"
  have "Suc i + k \<le> 30" using Suc.prems by simp
  from Suc.IH[OF this, of g3] obtain cs g' where
    rest: "mock_base_loop E now vid k (Suc i) g3 = Inr (cs, g')" "length cs = k"
    "\<forall>j<k. comment_text (cs ! j) = political_comments ! (Suc i + j)
            \<and> comment_id (cs ! j) = ''mock_'' @ vid @ ''_'' @ show_nat (Suc i + j)"
    by blast
  obtain c where c: "mock_base_loop E now vid (Suc k) i g = Inr (c # cs, g')"
    "comment_text c = political_comments ! i"
    "comment_id c = ''mock_'' @ vid @ ''_'' @ show_nat i"
    using rest(1)
    by (simp add: idx r bind_err_def Let_def case_prod_beta g3_def)
  have "\<forall>j<Suc k. comment_text ((c # cs) ! j) = political_comments ! (i + j)
            \<and> comment_id ((c # cs) ! j) = ''mock_'' @ vid @ ''_'' @ show_nat (i + j)"
  proof (intro allI impI)
    fix j assume "j < Suc k"
    then show "comment_text ((c # cs) ! j) = political_comments ! (i + j)
            \<and> comment_id ((c # cs) ! j) = ''mock_'' @ vid @ ''_'' @ show_nat (i + j)"
      using c(2,3) rest(3) by (cases j) simp_all
  qed
  then show ?case using c(1) rest(2) by simp
qed

lemma mock_template_loop_ok:
  "\<exists>cs g'. mock_template_loop E now vid base k i g = Inr (cs, g') \<and> length cs = k
     \<and> (\<forall>j<k. comment_id (cs ! j) = ''mock_'' @ vid @ ''_'' @ show_nat (base + (i + j))
            \<and> (\<exists>template\<in>set comment_templates. \<exists>kwargs.
                  comment_text (cs ! j) = format_template template kwargs))"
proof (induction k arbitrary: i g)
  case 0
  then show ?case by simp
next
  case (Suc k)
  define template where "template = fst (choice comment_templates g)"
  define g1 where "g1 = snd (choice comment_templates g)"
  define kwargs where "kwargs = fst (draw_kwargs g1)"
  define g2 where "g2 = snd (draw_kwargs g1)"
  define tx where "tx = format_template template kwargs"
  have tin: "template \<in> set comment_templates"
    unfolding template_def by (rule choice_in_set) (simp add: comment_templates_def)
  obtain r where r: "analyze_sentiment E tx = Inr r"
    using analyze_sentiment_total by blast
  define g6 where "g6 = snd (randint 0 5 (snd (randint 1 1440 (snd (randint 0 50
      (snd (randint 100 9999 g2)))))))"
  from Suc.IH[of "Suc i" g6] obtain cs g' where
    rest: "mock_template_loop E now vid base k (Suc i) g6 = Inr (cs, g')" "length cs = k"
    "\<forall>j<k. comment_id (cs ! j) = ''mock_'' @ vid @ ''_'' @ show_nat (base + (Suc i + j))
            \<and> (\<exists>template\<in>set comment_templates. \<exists>kwargs.
                  comment_text (cs ! j) = format_template template kwargs)"
    by blast
  obtain c where c: "mock_template_loop E now vid base (Suc k) i g = Inr (c # cs, g')"
    "comment_text c = tx"
    "comment_id c = ''mock_'' @ vid @ ''_'' @ show_nat (base + i)"
    using rest(1) r
    by (simp add: bind_err_def Let_def case_prod_beta g6_def tx_def kwargs_def g2_def
        g1_def template_def)
  have "\<forall>j<Suc k. comment_id ((c # cs) ! j) = ''mock_'' @ vid @ ''_'' @ show_nat (base + (i + j))
            \<and> (\<exists>template\<in>set comment_templates. \<exists>kwargs.
                  comment_text ((c # cs) ! j) = format_template template kwargs)"
  proof (intro allI impI)
    fix j assume "j < Suc k"
    then show "comment_id ((c # cs) ! j) = ''mock_'' @ vid @ ''_'' @ show_nat (base + (i + j))
            \<and> (\<exists>template\<in>set comment_templates. \<exists>kwargs.
                  comment_text ((c # cs) ! j) = format_template template kwargs)"
    proof (cases j)
      case 0
      then show ?thesis using c(2,3) tin unfolding tx_def by auto
    next
      case (Suc j')
      then show ?thesis using rest(3) \<open>j < Suc k\<close> by simp
    qed
  qed
  then show ?case using c(1) rest(2) by simp
qed

lemma generate_mock_comments_ok:
  assumes "0 \<le> max_comments"
  shows "\<exists>cs g'. generate_mock_comments E now g vid max_comments = Inr (cs, g')
     \<and> int (length cs) = max_comments
     \<and> take (nat (min 30 max_comments)) (map comment_text cs)
         = take (nat max_comments) political_comments
     \<and> (\<forall>j<length cs. comment_id (cs ! j) = ''mock_'' @ vid @ ''_'' @ show_nat j)
     \<and> (\<forall>j. 30 \<le> j \<and> j < length cs \<longrightarrow>
           (\<exists>template\<in>set comment_templates. \<exists>kwargs.
              comment_text (cs ! j) = format_template template kwargs))"
proof -
  define b where "b = nat (min 30 max_comments)"
  have b30: "b \<le> 30" and bmax: "int b \<le> max_comments" and bdef: "int b = min 30 max_comments"
    using assms by (simp_all add: b_def)
  have "0 + b \<le> 30" using b30 by simp
  from mock_base_loop_ok[OF this, of E now vid g] obtain cs g1 where
    base: "mock_base_loop E now vid b 0 g = Inr (cs, g1)" "length cs = b"
    "\<forall>j<b. comment_text (cs ! j) = political_comments ! (0 + j)
            \<and> comment_id (cs ! j) = ''mock_'' @ vid @ ''_'' @ show_nat (0 + j)"
    by blast
  define r where "r = nat (max_comments - int b)"
  from mock_template_loop_ok[of E now vid b r 0 g1] obtain more g2 where
    tl: "mock_template_loop E now vid b r 0 g1 = Inr (more, g2)" "length more = r"
    "\<forall>j<r. comment_id (more ! j) = ''mock_'' @ vid @ ''_'' @ show_nat (b + (0 + j))
            \<and> (\<exists>template\<in>set comment_templates. \<exists>kwargs.
                  comment_text (more ! j) = format_template template kwargs)"
    by blast
  have total: "int (length (cs @ more)) = max_comments"
    using base(2) tl(2) bmax by (simp add: r_def)
  have slice: "py_slice_to (cs @ more) max_comments = cs @ more"
    using total assms by (simp add: py_slice_to_def)
  have res: "generate_mock_comments E now g vid max_comments = Inr (cs @ more, g2)"
    using base(1,2) tl(1) slice
    by (simp add: generate_mock_comments_def length_political_comments b_def[symmetric]
        r_def[symmetric] bind_err_def Let_def)
  have texts: "map comment_text cs = take b political_comments"
  proof (rule nth_equalityI)
    show "length (map comment_text cs) = length (take b political_comments)"
      using base(2) b30 by (simp add: length_political_comments)
  next
    fix j assume "j < length (map comment_text cs)"
    then have "j < b" using base(2) by simp
    then show "map comment_text cs ! j = take b political_comments ! j"
      using base(2,3) by simp
  qed
  have t1: "take (nat (min 30 max_comments)) (map comment_text (cs @ more))
         = take (nat max_comments) political_comments"
  proof -
    have "take b (map comment_text (cs @ more)) = map comment_text cs"
      using base(2) by simp
    moreover have "take b political_comments = take (nat max_comments) political_comments"
    proof (cases "max_comments \<le> 30")
      case True
      then have "b = nat max_comments" by (simp add: b_def)
      then show ?thesis by simp
    next
      case False
      then have "b = 30" and "30 \<le> nat max_comments" by (simp_all add: b_def)
      then show ?thesis by (simp add: length_political_comments)
    qed
    ultimately show ?thesis using texts unfolding b_def by simp
  qed
  have ids: "\<forall>j<length (cs @ more).
      comment_id ((cs @ more) ! j) = ''mock_'' @ vid @ ''_'' @ show_nat j"
  proof (intro allI impI)
    fix j assume j: "j < length (cs @ more)"
    show "comment_id ((cs @ more) ! j) = ''mock_'' @ vid @ ''_'' @ show_nat j"
    proof (cases "j < b")
      case True
      then show ?thesis using base(2,3) by (simp add: nth_append)
    next
      case False
      have "length (cs @ more) = b + r" using base(2) tl(2) by simp
      then have "j - b < r" using j False by linarith
      then show ?thesis using False base(2) tl(3) by (simp add: nth_append)
    qed
  qed
  have tpl: "\<forall>j. 30 \<le> j \<and> j < length (cs @ more) \<longrightarrow>
           (\<exists>template\<in>set comment_templates. \<exists>kwargs.
              comment_text ((cs @ more) ! j) = format_template template kwargs)"
  proof (intro allI impI)
    fix j assume j: "30 \<le> j \<and> j < length (cs @ more)"
    then have nb: "\<not> j < b" using b30 by simp
    have "length (cs @ more) = b + r" using base(2) tl(2) by simp
    then have "j - b < r" using j nb by linarith
    then show "\<exists>template\<in>set comment_templates. \<exists>kwargs.
              comment_text ((cs @ more) ! j) = format_template template kwargs"
      using nb base(2) tl(3) by (simp add: nth_append)
  qed
  show ?thesis using res total t1 ids tpl by blast
qed

lemma scrape_comments_api_bound:
  assumes "0 \<le> max_comments" "scrape_comments_api E youtube max_comments = Inr cs"
  shows "int (length cs) \<le> max_comments"
proof -
  obtain all_comments where "cs = py_slice_to all_comments max_comments"
    using assms(2) by (auto simp: scrape_comments_api_def bind_err_def split: sum.splits)
  then show ?thesis using assms(1) by (simp add: py_slice_to_def)
qed

text \<open>
  Claim C5. For every video id and every count \<open>max_comments\<close> (a count: not negative),
  \<open>scrape_comments\<close> returns, and returns at most \<open>max_comments\<close> comments, whatever
  the API answers. When no real tier is available the synthetic tier returns exactly
  \<open>max_comments\<close> comments (it can fill any count, so this is the minimum of the count
  and what is available): the curated comments first, in their fixed order, then
  template comments, numbered in the order they were generated.
\<close>

theorem scrape_comments_count:
  assumes "0 \<le> max_comments"
  shows "\<exists>comments g'. scrape_comments E api_key api now g video_id max_comments
             = Inr (comments, g')
     \<and> int (length comments) \<le> max_comments
     \<and> (\<not> (truthy api_key \<and> HAS_YOUTUBE_API E) \<longrightarrow>
          int (length comments) = max_comments
          \<and> take (nat (min 30 max_comments)) (map comment_text comments)
              = take (nat max_comments) political_comments
          \<and> (\<forall>j<length comments.
                 comment_id (comments ! j) = ''mock_'' @ video_id @ ''_'' @ show_nat j)
          \<and> (\<forall>j. 30 \<le> j \<and> j < length comments \<longrightarrow>
                (\<exists>template\<in>set comment_templates. \<exists>kwargs.
                   comment_text (comments ! j) = format_template template kwargs)))"
proof -
  obtain cs g1 where
    m: "generate_mock_comments E now g video_id max_comments = Inr (cs, g1)"
    "int (length cs) = max_comments"
    "take (nat (min 30 max_comments)) (map comment_text cs)
         = take (nat max_comments) political_comments"
    "\<forall>j<length cs. comment_id (cs ! j) = ''mock_'' @ video_id @ ''_'' @ show_nat j"
    "\<forall>j. 30 \<le> j \<and> j < length cs \<longrightarrow>
           (\<exists>template\<in>set comment_templates. \<exists>kwargs.
              comment_text (cs ! j) = format_template template kwargs)"
    using generate_mock_comments_ok[OF assms, of E now g video_id] by blast
  have synth: "(case (if HAS_SELENIUM E
                 then (case scrape_comments_selenium E now g video_id max_comments of
                         Inr r \<Rightarrow> Some r | Inl e \<Rightarrow> None)
                 else None) of
             Some r \<Rightarrow> Inr r
           | None \<Rightarrow> generate_mock_comments E now g video_id max_comments) = Inr (cs, g1)"
    using m(1) by (simp add: scrape_comments_selenium_def)
  show ?thesis
  proof (cases "truthy api_key \<and> HAS_YOUTUBE_API E")
    case False
    have "scrape_comments E api_key api now g video_id max_comments = Inr (cs, g1)"
      by (simp only: scrape_comments_def if_not_P[OF False] option.case synth)
    then show ?thesis using m(2-5) by auto
  next
    case True
    show ?thesis
    proof (cases "scrape_comments_api E (api video_id) max_comments")
      case (Inl e)
      have "scrape_comments E api_key api now g video_id max_comments = Inr (cs, g1)"
        by (simp only: scrape_comments_def if_P[OF True] Inl sum.case option.case synth)
      then show ?thesis using m(2) True by auto
    next
      case (Inr comments)
      have "scrape_comments E api_key api now g video_id max_comments = Inr (comments, g)"
        by (simp only: scrape_comments_def if_P[OF True] Inr sum.case option.case)
      moreover have "int (length comments) \<le> max_comments"
        using scrape_comments_api_bound[OF assms Inr] .
      ultimately show ?thesis using True by auto
    qed
  qed
qed

theorem scrape_comments_count_witness:
  "(0::int) \<le> 32
   \<and> \<not> (truthy None \<and> HAS_YOUTUBE_API lexical_env)
   \<and> (\<exists>comments g'. scrape_comments lexical_env None no_api 5000 seq_rng ''abc'' 32
             = Inr (comments, g')
        \<and> int (length comments) = 32
        \<and> take 30 (map comment_text comments) = political_comments
        \<and> comment_id (comments ! 31) = ''mock_abc_31'')"
proof -
  have h: "(0::int) \<le> 32" by simp
  have n: "\<not> (truthy None \<and> HAS_YOUTUBE_API lexical_env)" by (simp add: truthy_def)
  have s: "show_nat 31 = ''31''" by code_simp
  obtain comments g' where c:
    "scrape_comments lexical_env None no_api 5000 seq_rng ''abc'' 32 = Inr (comments, g')"
    "int (length comments) = 32"
    "take (nat (min 30 32)) (map comment_text comments) = take (nat 32) political_comments"
    "\<forall>j<length comments. comment_id (comments ! j) = ''mock_'' @ ''abc'' @ ''_'' @ show_nat j"
    using scrape_comments_count[OF h, of lexical_env None no_api 5000 seq_rng "''abc''"] n
    by blast
  have t: "take 30 (map comment_text comments) = political_comments"
    using c(3) by (simp add: length_political_comments)
  have "31 < length comments" using c(2) by simp
  then have i: "comment_id (comments ! 31) = ''mock_abc_31''" using c(4) s by simp
  show ?thesis using h n c(1,2) t i by blast
qed

section \<open>Properties of the broadcast\<close>

text \<open>
  Claim C8. A broadcast attempts the delivery of the serialised message to every
  connected client independently: whatever sends fail, every client with an open
  connection receives the message in the same call, the failing clients are left as
  they were, and the call itself raises nothing.
\<close>

theorem broadcast_update_isolated:
  assumes "HAS_WEBSOCKETS E"
  shows "\<exists>clients'. broadcast_update E dumps clients data = (Inr (), clients')
     \<and> length clients' = length clients
     \<and> (\<forall>i<length clients.
           client_name (clients' ! i) = client_name (clients ! i)
           \<and> client_open (clients' ! i) = client_open (clients ! i)
           \<and> (client_open (clients ! i) \<longrightarrow>
                 client_inbox (clients' ! i) = client_inbox (clients ! i) @ [dumps data])
           \<and> (\<not> client_open (clients ! i) \<longrightarrow>
                 client_inbox (clients' ! i) = client_inbox (clients ! i)))"
proof (cases "clients = []")
  case True
  then show ?thesis by (simp add: broadcast_update_def)
next
  case False
  define clients' where "clients' = map snd (map (send (dumps data)) clients)"
  have r: "broadcast_update E dumps clients data = (Inr (), clients')"
    using False assms by (simp add: broadcast_update_def gather_def Let_def clients'_def)
  have l: "length clients' = length clients" by (simp add: clients'_def)
  have "\<forall>i<length clients.
           client_name (clients' ! i) = client_name (clients ! i)
           \<and> client_open (clients' ! i) = client_open (clients ! i)
           \<and> (client_open (clients ! i) \<longrightarrow>
                 client_inbox (clients' ! i) = client_inbox (clients ! i) @ [dumps data])
           \<and> (\<not> client_open (clients ! i) \<longrightarrow>
                 client_inbox (clients' ! i) = client_inbox (clients ! i))"
    by (simp add: clients'_def send_def)
  then show ?thesis using r l by blast
qed

theorem broadcast_update_isolated_witness:
  "HAS_WEBSOCKETS lexical_env
   \<and> broadcast_update lexical_env show_data three_clients ''x'' =
       (Inr (),
        [\<lparr>client_name = ''a'', client_open = True, client_inbox = [''{x}'']\<rparr>,
         \<lparr>client_name = ''b'', client_open = False, client_inbox = []\<rparr>,
         \<lparr>client_name = ''c'', client_open = True, client_inbox = [''earlier'', ''{x}'']\<rparr>])"
proof -
  have e: "HAS_WEBSOCKETS lexical_env" by (simp add: lexical_env_def)
  obtain clients' where c:
    "broadcast_update lexical_env show_data three_clients ''x'' = (Inr (), clients')"
    using broadcast_update_isolated[OF e, of show_data three_clients "''x''"] by blast
  have "broadcast_update lexical_env show_data three_clients ''x'' =
       (Inr (),
        [\<lparr>client_name = ''a'', client_open = True, client_inbox = [''{x}'']\<rparr>,
         \<lparr>client_name = ''b'', client_open = False, client_inbox = []\<rparr>,
         \<lparr>client_name = ''c'', client_open = True, client_inbox = [''earlier'', ''{x}'']\<rparr>])"
    by code_simp
  then show ?thesis using e c by simp
qed

end
